theory Spec2Isabelle
  imports Complex_Main "HOL-Library.Log_Nat"
begin

section \<open>Strings\<close>

text \<open>
  A JavaScript string is modelled as a \<^typ>\<open>string\<close>, one \<^typ>\<open>char\<close> per code unit; the
  character \<open>CHR n\<close> stands for the code unit \<open>n\<close>, so the strings of the model are the
  strings over U+0000 to U+00FF (ASCII and Latin-1). On these, the definitions below are
  what JavaScript computes: the class \<^verbatim>\<open>\s\<close> and \<^verbatim>\<open>String.prototype.trim\<close> take tab, line
  feed, vertical tab, form feed, carriage return, space and the no-break space U+00A0
  (their other characters lie above U+00FF); \<^verbatim>\<open>\d\<close> is the ten ASCII digits;
  \<^verbatim>\<open>toLowerCase\<close> maps A to Z and the Latin-1 capitals U+00C0 to U+00DE, without the
  multiplication sign U+00D7, to the letter 32 places later.
\<close>

definition is_space :: "char \<Rightarrow> bool" where
  "is_space c = (c = CHR 0x09 \<or> c = CHR 0x0A \<or> c = CHR 0x0B \<or> c = CHR 0x0C \<or> c = CHR 0x0D
     \<or> c = CHR '' '' \<or> c = CHR 0xA0)"

definition is_digit :: "char \<Rightarrow> bool" where
  "is_digit c = (c = CHR ''0'' \<or> c = CHR ''1'' \<or> c = CHR ''2'' \<or> c = CHR ''3'' \<or> c = CHR ''4''
     \<or> c = CHR ''5'' \<or> c = CHR ''6'' \<or> c = CHR ''7'' \<or> c = CHR ''8'' \<or> c = CHR ''9'')"

text \<open>\<^verbatim>\<open>s.trim()\<close>\<close>

definition trim :: "string \<Rightarrow> string" where
  "trim s = rev (dropWhile is_space (rev (dropWhile is_space s)))"

text \<open>\<^verbatim>\<open>s.replace(/\s/g, '')\<close>\<close>

definition strip_spaces :: "string \<Rightarrow> string" where
  "strip_spaces s = filter (\<lambda>c. \<not> is_space c) s"


definition upper_letters :: string where
  "upper_letters = ''ABCDEFGHIJKLMNOPQRSTUVWXYZ''"

definition lower_letters :: string where
  "lower_letters = ''abcdefghijklmnopqrstuvwxyz''"

definition latin1_capitals :: string where
  "latin1_capitals =
     [CHR 0xC0, CHR 0xC1, CHR 0xC2, CHR 0xC3, CHR 0xC4, CHR 0xC5, CHR 0xC6, CHR 0xC7,
      CHR 0xC8, CHR 0xC9, CHR 0xCA, CHR 0xCB, CHR 0xCC, CHR 0xCD, CHR 0xCE, CHR 0xCF,
      CHR 0xD0, CHR 0xD1, CHR 0xD2, CHR 0xD3, CHR 0xD4, CHR 0xD5, CHR 0xD6,
      CHR 0xD8, CHR 0xD9, CHR 0xDA, CHR 0xDB, CHR 0xDC, CHR 0xDD, CHR 0xDE]"

definition latin1_smalls :: string where
  "latin1_smalls =
     [CHR 0xE0, CHR 0xE1, CHR 0xE2, CHR 0xE3, CHR 0xE4, CHR 0xE5, CHR 0xE6, CHR 0xE7,
      CHR 0xE8, CHR 0xE9, CHR 0xEA, CHR 0xEB, CHR 0xEC, CHR 0xED, CHR 0xEE, CHR 0xEF,
      CHR 0xF0, CHR 0xF1, CHR 0xF2, CHR 0xF3, CHR 0xF4, CHR 0xF5, CHR 0xF6,
      CHR 0xF8, CHR 0xF9, CHR 0xFA, CHR 0xFB, CHR 0xFC, CHR 0xFD, CHR 0xFE]"

definition toLowerCase :: "string \<Rightarrow> string" where
  "toLowerCase s =
     map (\<lambda>c. case map_of (zip (upper_letters @ latin1_capitals)
                               (lower_letters @ latin1_smalls)) c of
                 Some l \<Rightarrow> l | None \<Rightarrow> c) s"

text \<open>\<^verbatim>\<open>toUpperCase\<close> is applied to digits of \<^verbatim>\<open>Number.prototype.toString(36)\<close> only, which
  are the ten digits, the letters a to z and the point; it is modelled on these.\<close>

definition toUpperCase :: "string \<Rightarrow> string" where
  "toUpperCase s =
     map (\<lambda>c. case map_of (zip lower_letters upper_letters) c of Some u \<Rightarrow> u | None \<Rightarrow> c) s"

text \<open>\<^verbatim>\<open>s.slice(-4)\<close>: the last four characters, the whole string when it is shorter.\<close>

definition slice_last4 :: "string \<Rightarrow> string" where
  "slice_last4 s = drop (length s - 4) s"

text \<open>\<^verbatim>\<open>s.substr(2, 6)\<close>\<close>

definition substr_2_6 :: "string \<Rightarrow> string" where
  "substr_2_6 s = take 6 (drop 2 s)"

text \<open>
  The JavaScript operator \<^verbatim>\<open>||\<close> on an optional string (\<^verbatim>\<open>undefined\<close>, \<^verbatim>\<open>null\<close> and the
  empty string are falsy) and on a number (zero is falsy).
\<close>

definition str_or :: "string option \<Rightarrow> string \<Rightarrow> string" where
  "str_or v d = (case v of None \<Rightarrow> d | Some s \<Rightarrow> if s = [] then d else s)"

definition num_or :: "int option \<Rightarrow> int \<Rightarrow> int" where
  "num_or v d = (case v of None \<Rightarrow> d | Some n \<Rightarrow> if n = 0 then d else n)"

text \<open>\<^verbatim>\<open>!v\<close> on an optional string.\<close>

definition falsy :: "string option \<Rightarrow> bool" where
  "falsy v = (case v of None \<Rightarrow> True | Some s \<Rightarrow> s = [])"

section \<open>Numbers\<close>

text \<open>
  A JavaScript number is an IEEE 754 binary64 value. The finite ones are modelled as the
  rationals they denote; \<open>binary64\<close> rounds a rational to the nearest value with a
  53-bit significand, ties to even (overflow and subnormals, far from any price, are not
  modelled). A decimal literal such as \<^verbatim>\<open>199.99\<close> denotes \<open>binary64 (19999 / 100)\<close>, and
  \<^verbatim>\<open>x * y\<close> is \<open>js_times x y\<close>. Passenger counts and steps are integers, on which
  JavaScript arithmetic is exact below \<open>2 ^ 53\<close>; they are modelled as \<^typ>\<open>int\<close>.
\<close>

definition pow2 :: "int \<Rightarrow> rat" where
  "pow2 e = (if 0 \<le> e then 2 ^ nat e else 1 / 2 ^ nat (- e))"

text \<open>The exponent \<open>e\<close> with \<open>2 ^ e \<le> a < 2 ^ (e + 1)\<close>, for \<open>a > 0\<close>.\<close>

definition ilog2 :: "rat \<Rightarrow> int" where
  "ilog2 a = (if 1 \<le> a then int (floorlog 2 (nat \<lfloor>a\<rfloor>)) - 1
              else - int (floorlog 2 (nat \<lceil>1 / a\<rceil> - 1)))"

definition round_half_even :: "rat \<Rightarrow> int" where
  "round_half_even m = (let f = \<lfloor>m\<rfloor>; r = m - of_int f in
     if r < 1 / 2 then f else if 1 / 2 < r then f + 1 else if even f then f else f + 1)"

definition binary64 :: "rat \<Rightarrow> rat" where
  "binary64 x = (if x = 0 then 0 else
     let a = \<bar>x\<bar>; u = pow2 (ilog2 a - 52) in
       sgn x * of_int (round_half_even (a / u)) * u)"

definition js_times :: "rat \<Rightarrow> rat \<Rightarrow> rat" where
  "js_times x y = binary64 (x * y)"

definition digit_chars :: string where
  "digit_chars = ''0123456789''"

fun digits :: "nat \<Rightarrow> string" where
  "digits n = (if n < 10 then [digit_chars ! n]
               else digits (n div 10) @ [digit_chars ! (n mod 10)])"

declare digits.simps [simp del]

text \<open>\<^verbatim>\<open>'' + n\<close> for an integer \<open>n\<close>.\<close>

definition show_int :: "int \<Rightarrow> string" where
  "show_int n = (if n < 0 then ''-'' @ digits (nat (- n)) else digits (nat n))"

text \<open>
  \<^verbatim>\<open>x.toFixed(2)\<close> for \<open>\<bar>x\<bar> < 10 ^ 21\<close>: the sign, then the integer \<open>n\<close> for which
  \<open>n / 100\<close> is nearest to \<open>\<bar>x\<bar>\<close> (the larger one on a tie), written with two decimals.
\<close>

definition toFixed2 :: "rat \<Rightarrow> string" where
  "toFixed2 x = (let n = nat \<lfloor>\<bar>x\<bar> * 100 + 1 / 2\<rfloor> in
     (if x < 0 then ''-'' else []) @ digits (n div 100) @ ''.'' @
       [digit_chars ! (n mod 100 div 10), digit_chars ! (n mod 10)])"

text \<open>\<^verbatim>\<open>parseInt(s, 10)\<close> on a string of two digits.\<close>

definition digit_val :: "char \<Rightarrow> int" where
  "digit_val c = (case map_of (zip digit_chars [0, 1, 2, 3, 4, 5, 6, 7, 8, 9]) c of
     Some v \<Rightarrow> v | None \<Rightarrow> 0)"

definition parseInt2 :: "char \<Rightarrow> char \<Rightarrow> int" where
  "parseInt2 a b = 10 * digit_val a + digit_val b"

section \<open>Validators and formatters of the booking page\<close>

text \<open>\<^verbatim>\<open>/^[^\s@]+@[^\s@]+\.[^\s@]+$/.test(email)\<close>. No part may contain \<^verbatim>\<open>@\<close> or
  white space, so the string has exactly one \<^verbatim>\<open>@\<close>, a non-empty part before it, and
  after it a part with a dot that is neither its first nor its last character.\<close>

definition plain_char :: "char \<Rightarrow> bool" where
  "plain_char c = (\<not> is_space c \<and> c \<noteq> CHR ''@'')"

definition has_inner_dot :: "string \<Rightarrow> bool" where
  "has_inner_dot s = list_ex (\<lambda>i. s ! i = CHR ''.'') [1 ..< length s - 1]"

definition isValidEmail :: "string \<Rightarrow> bool" where
  "isValidEmail email =
     (let user = takeWhile plain_char email; rest = dropWhile plain_char email in
      user \<noteq> [] \<and>
      (case rest of
         [] \<Rightarrow> False
       | c # host \<Rightarrow> c = CHR ''@'' \<and> list_all plain_char host \<and> has_inner_dot host))"

text \<open>\<^verbatim>\<open>/^\d+$/.test(s)\<close> and \<^verbatim>\<open>/^\d{13,19}$/.test(s)\<close>\<close>

definition all_digits1 :: "string \<Rightarrow> bool" where
  "all_digits1 s = (s \<noteq> [] \<and> list_all is_digit s)"

definition digits_13_19 :: "string \<Rightarrow> bool" where
  "digits_13_19 s = (list_all is_digit s \<and> 13 \<le> length s \<and> length s \<le> 19)"

definition isValidCardNumber :: "string \<Rightarrow> bool" where
  "isValidCardNumber number =
     (let cleanNumber = strip_spaces number in
      if \<not> all_digits1 cleanNumber \<or> length cleanNumber < 13 \<or> length cleanNumber > 19
      then False
      else digits_13_19 cleanNumber)"

text \<open>
  What a run of the payment handler reads from outside the page:
  \<^verbatim>\<open>new Date().getFullYear()\<close> and \<^verbatim>\<open>new Date().getMonth()\<close> (0 to 11) in the expiry check,
  \<^verbatim>\<open>Date.now()\<close> in \<^verbatim>\<open>processPayment\<close>, and \<^verbatim>\<open>Math.random().toString(36)\<close>, \<^verbatim>\<open>Date.now()\<close> and
  \<^verbatim>\<open>new Date().toISOString()\<close> in \<^verbatim>\<open>createBooking\<close>.
\<close>

record environment =
  fullYear :: int
  monthIndex :: int
  payment_now :: int
  random36 :: string
  booking_now :: int
  booking_iso :: string

definition isValidExpiryDate :: "environment \<Rightarrow> string \<Rightarrow> bool" where
  "isValidExpiryDate clk expiry =
     (case expiry of
        [m1, m2, sep, y1, y2] \<Rightarrow>
          if \<not> (is_digit m1 \<and> is_digit m2 \<and> sep = CHR ''/'' \<and> is_digit y1 \<and> is_digit y2)
          then False
          else
            (let month = parseInt2 m1 m2; year = parseInt2 y1 y2;
                 currentYear = fullYear clk mod 100;
                 currentMonth = monthIndex clk + 1
             in if month < 1 \<or> month > 12 then False
                else if year < currentYear then False
                else if year = currentYear \<and> month < currentMonth then False
                else True)
      | _ \<Rightarrow> False)"

text \<open>\<^verbatim>\<open>/^\d{3,4}$/.test(cvv)\<close>\<close>

definition isValidCVV :: "string \<Rightarrow> bool" where
  "isValidCVV cvv = (list_all is_digit cvv \<and> 3 \<le> length cvv \<and> length cvv \<le> 4)"



section \<open>The session record of the booking wizard\<close>

text \<open>
  The object \<^verbatim>\<open>bookingState\<close> and the objects it holds. A property that may be
  \<^verbatim>\<open>undefined\<close> or \<^verbatim>\<open>null\<close> is an \<^typ>\<open>'a option\<close> (both are \<open>None\<close>); the empty object
  \<^verbatim>\<open>{}\<close> is the record with every property \<open>None\<close>.
\<close>

record passenger_counts =
  adults :: int
  children :: int
  infants :: int

record search_data =
  sd_from :: "string option"
  sd_to :: "string option"
  departureDate :: "string option"
  returnDate :: "string option"
  tripType :: "string option"
  passengers :: "passenger_counts option"

record flight =
  flight_id :: string
  airline :: string
  flightNumber :: string
  departureCity :: string
  arrivalCity :: string
  departureTime :: string
  arrivalTime :: string
  departureAirport :: string
  arrivalAirport :: string
  duration :: string
  price :: rat
  availableSeats :: int

record passenger_data =
  pd_name :: "string option"
  pd_email :: "string option"
  pd_phone :: "string option"
  specialRequests :: "string option"

record payment_data =
  cardName :: "string option"
  cardLastFour :: "string option"
  expiryDate :: "string option"

record booking_details =
  bookingReference :: "string option"
  bookingId :: "int option"
  timestamp :: "string option"
  status :: "string option"

record booking_state =
  currentStep :: int
  searchData :: "search_data option"
  selectedFlight :: "flight option"
  passengerData :: passenger_data
  paymentData :: payment_data
  bookingDetails :: booking_details

definition default_passengers :: passenger_counts where
  "default_passengers = \<lparr>adults = 1, children = 0, infants = 0\<rparr>"

definition empty_passenger_data :: passenger_data where
  "empty_passenger_data =
     \<lparr>pd_name = None, pd_email = None, pd_phone = None, specialRequests = None\<rparr>"

definition empty_payment_data :: payment_data where
  "empty_payment_data = \<lparr>cardName = None, cardLastFour = None, expiryDate = None\<rparr>"

definition empty_booking_details :: booking_details where
  "empty_booking_details =
     \<lparr>bookingReference = None, bookingId = None, timestamp = None, status = None\<rparr>"

definition empty_search_data :: search_data where
  "empty_search_data = \<lparr>sd_from = None, sd_to = None, departureDate = None, returnDate = None,
     tripType = None, passengers = None\<rparr>"

text \<open>The initial value of \<^verbatim>\<open>bookingState\<close>, set when the script of the booking page loads.\<close>

definition initial_state :: booking_state where
  "initial_state = \<lparr>currentStep = 1, searchData = None, selectedFlight = None,
     passengerData = empty_passenger_data, paymentData = empty_payment_data,
     bookingDetails = empty_booking_details\<rparr>"

section \<open>Browser storage and the page\<close>

text \<open>
  \<^verbatim>\<open>JSON.parse\<close> and \<^verbatim>\<open>JSON.stringify\<close> belong to the engine, so the text held in a storage
  slot is represented by what \<^verbatim>\<open>JSON.parse\<close> makes of it: a text that is not JSON
  (\<open>Malformed\<close>, the parse throws), the text \<^verbatim>\<open>null\<close>, or a value with the properties of
  the record type (a number, string, boolean or array, none of whose properties the code
  reads is defined, is the object with every property \<open>None\<close>). Texts whose properties have
  other types than the ones the code writes are outside the model.
\<close>

datatype 'a json_text = Malformed | Json_null | Json_object 'a

datatype js_error = SyntaxError | TypeError | QuotaExceededError

definition JSON_parse :: "'a json_text \<Rightarrow> js_error + 'a option" where
  "JSON_parse t = (case t of Malformed \<Rightarrow> Inl SyntaxError | Json_null \<Rightarrow> Inr None
     | Json_object v \<Rightarrow> Inr (Some v))"

text \<open>What \<^verbatim>\<open>JSON.parse\<close> returns for a text written by \<^verbatim>\<open>JSON.stringify(bookingState)\<close>:
  each property is present or not.\<close>

record parsed_state =
  p_currentStep :: "int option"
  p_searchData :: "search_data option"
  p_selectedFlight :: "flight option"
  p_passengerData :: "passenger_data option"
  p_paymentData :: "payment_data option"
  p_bookingDetails :: "booking_details option"

definition JSON_stringify_state :: "booking_state \<Rightarrow> parsed_state json_text" where
  "JSON_stringify_state s = Json_object
     \<lparr>p_currentStep = Some (currentStep s), p_searchData = searchData s,
      p_selectedFlight = selectedFlight s, p_passengerData = Some (passengerData s),
      p_paymentData = Some (paymentData s), p_bookingDetails = Some (bookingDetails s)\<rparr>"

text \<open>The values of the form fields of the booking page; \<open>None\<close> when the page has no
  element of that id.\<close>

record form_inputs =
  in_bookingFrom :: "string option"
  in_bookingTo :: "string option"
  in_bookingDeparture :: "string option"
  in_bookingReturn :: "string option"
  in_passengerName :: "string option"
  in_passengerEmail :: "string option"
  in_passengerPhone :: "string option"
  in_specialRequests :: "string option"
  in_cardName :: "string option"
  in_cardNumber :: "string option"
  in_cardExpiry :: "string option"
  in_cardCVV :: "string option"

text \<open>Which of the other elements the handlers look up exist in the page, and which
  session texts \<^verbatim>\<open>localStorage.setItem\<close> accepts: it throws on the others, as it does when
  the quota of the storage is exceeded.\<close>

record dom =
  has_step :: "int \<Rightarrow> bool"
  has_flightsResults :: bool
  has_noFlights :: bool
  has_totalPrice :: bool
  has_confirmBookingBtn :: bool
  has_bookingReference :: bool
  has_passengerSelector :: bool
  setItem_accepts :: "parsed_state json_text \<Rightarrow> bool"

text \<open>A rendered flight card: its \<^verbatim>\<open>data-flight-id\<close>, the two prices it shows, and the
  array \<^verbatim>\<open>flights\<close> its click handler closes over.\<close>

record flight_card =
  card_flightId :: string
  card_total :: string
  card_perPerson :: string
  card_flights :: "flight list"

text \<open>
  Everything the handlers of the booking page read and write: the session record, the two
  storage slots \<^verbatim>\<open>flightSearch\<close> and \<^verbatim>\<open>bookingState\<close>, the form fields, the counts held by
  the passenger selector, and what is shown: the error toasts in the order they appeared,
  the flight cards, the \<^verbatim>\<open>display\<close> style of the no-flights notice, the text of the total
  price and of the booking reference. The progress bar, the active panel, the summaries'
  other lines, the passenger label, the loading indicator and the console are written but
  never read; they are not tracked.
\<close>

record world =
  state :: booking_state
  flightSearchItem :: "search_data json_text option"
  bookingStateItem :: "parsed_state json_text option"
  inputs :: form_inputs
  selector :: "passenger_counts option"
  toasts :: "string list"
  flightCards :: "flight_card list"
  noFlightsDisplay :: "string option"
  totalPriceText :: "string option"
  bookingReferenceText :: "string option"

definition showError :: "string \<Rightarrow> world \<Rightarrow> world" where
  "showError message w = w\<lparr>toasts := toasts w @ [message]\<rparr>"

text \<open>How a run of statements ends: it completes, or a statement throws and what was
  written before stays written.\<close>

datatype outcome = Done world | Threw js_error world

definition world_of :: "outcome \<Rightarrow> world" where
  "world_of r = (case r of Done w \<Rightarrow> w | Threw e w \<Rightarrow> w)"

definition and_then :: "outcome \<Rightarrow> (world \<Rightarrow> outcome) \<Rightarrow> outcome" where
  "and_then r f = (case r of Done w \<Rightarrow> f w | Threw e w \<Rightarrow> Threw e w)"

definition saveBookingState :: "dom \<Rightarrow> world \<Rightarrow> outcome" where
  "saveBookingState d w =
     (if setItem_accepts d (JSON_stringify_state (state w))
      then Done (w\<lparr>bookingStateItem := Some (JSON_stringify_state (state w))\<rparr>)
      else Threw QuotaExceededError w)"

text \<open>\<^verbatim>\<open>navigateToStep\<close> assigns \<^verbatim>\<open>bookingState.currentStep\<close> before it saves.\<close>

definition navigateToStep :: "dom \<Rightarrow> int \<Rightarrow> world \<Rightarrow> outcome" where
  "navigateToStep d step w =
     (if has_step d step
      then saveBookingState d (w\<lparr>state := (state w)\<lparr>currentStep := step\<rparr>\<rparr>)
      else Done w)"

section \<open>Page load: \<^verbatim>\<open>initBookingFlow\<close>, \<^verbatim>\<open>loadSearchData\<close>, \<^verbatim>\<open>initPassengerSelector\<close>\<close>

text \<open>The body of the \<^verbatim>\<open>try\<close> block of \<^verbatim>\<open>initBookingFlow\<close>. \<^verbatim>\<open>JSON.parse\<close> throws on a
  malformed text; reading a property of \<^verbatim>\<open>null\<close> throws a \<^verbatim>\<open>TypeError\<close>. Both happen before
  the first assignment to \<^verbatim>\<open>bookingState\<close>. The save inside \<^verbatim>\<open>navigateToStep\<close> can throw
  after the assignments.\<close>

definition copy_parsed :: "parsed_state \<Rightarrow> booking_state \<Rightarrow> booking_state" where
  "copy_parsed parsedState s =
     (let s1 = (if searchData s = None then s\<lparr>searchData := p_searchData parsedState\<rparr>
                else s)
      in s1\<lparr>currentStep := num_or (p_currentStep parsedState) 1,
            selectedFlight := p_selectedFlight parsedState,
            passengerData := (case p_passengerData parsedState of
                                Some v \<Rightarrow> v | None \<Rightarrow> empty_passenger_data),
            paymentData := (case p_paymentData parsedState of
                                Some v \<Rightarrow> v | None \<Rightarrow> empty_payment_data),
            bookingDetails := (case p_bookingDetails parsedState of
                                Some v \<Rightarrow> v | None \<Rightarrow> empty_booking_details)\<rparr>)"

definition restore_try :: "dom \<Rightarrow> parsed_state json_text \<Rightarrow> world \<Rightarrow> outcome" where
  "restore_try d savedState w =
     (case JSON_parse savedState of
        Inl e \<Rightarrow> Threw e w
      | Inr None \<Rightarrow> Threw TypeError w
      | Inr (Some parsedState) \<Rightarrow>
          (let w1 = w\<lparr>state := copy_parsed parsedState (state w)\<rparr>
           in navigateToStep d (currentStep (state w1)) w1))"

text \<open>The \<^verbatim>\<open>catch\<close> block only writes to the console, so the function returns with what
  the \<^verbatim>\<open>try\<close> block had written.\<close>

definition initBookingFlow :: "dom \<Rightarrow> world \<Rightarrow> world" where
  "initBookingFlow d w =
     (case bookingStateItem w of
        None \<Rightarrow> w
      | Some savedState \<Rightarrow>
          (case restore_try d savedState w of Done w' \<Rightarrow> w' | Threw e w' \<Rightarrow> w'))"

definition populate_fields :: "search_data \<Rightarrow> form_inputs \<Rightarrow> form_inputs" where
  "populate_fields sd i =
     (let i1 = (if in_bookingFrom i \<noteq> None
                then i\<lparr>in_bookingFrom := Some (str_or (sd_from sd) [])\<rparr> else i);
          i2 = (if in_bookingTo i1 \<noteq> None
                then i1\<lparr>in_bookingTo := Some (str_or (sd_to sd) [])\<rparr> else i1);
          i3 = (if in_bookingDeparture i2 \<noteq> None
                then i2\<lparr>in_bookingDeparture := Some (str_or (departureDate sd) [])\<rparr> else i2)
      in if tripType sd = Some ''round-trip'' \<and> \<not> falsy (returnDate sd)
            \<and> in_bookingReturn i3 \<noteq> None
         then i3\<lparr>in_bookingReturn := returnDate sd\<rparr> else i3)"

text \<open>\<^verbatim>\<open>loadSearchData\<close>: a malformed text is caught and changes nothing; for the text
  \<^verbatim>\<open>null\<close> the assignment to \<^verbatim>\<open>bookingState.searchData\<close> is done before the first property
  read throws, and the slot is not removed.\<close>

definition loadSearchData :: "world \<Rightarrow> world" where
  "loadSearchData w =
     (case flightSearchItem w of
        None \<Rightarrow> w
      | Some savedSearch \<Rightarrow>
          (case JSON_parse savedSearch of
             Inl e \<Rightarrow> w
           | Inr None \<Rightarrow> w\<lparr>state := (state w)\<lparr>searchData := None\<rparr>\<rparr>
           | Inr (Some sd) \<Rightarrow>
               w\<lparr>state := (state w)\<lparr>searchData := Some sd\<rparr>,
                 inputs := populate_fields sd (inputs w),
                 flightSearchItem := None\<rparr>))"

text \<open>\<^verbatim>\<open>bookingState.searchData?.passengers\<close>\<close>

definition passengers_of :: "booking_state \<Rightarrow> passenger_counts option" where
  "passengers_of s = (case searchData s of None \<Rightarrow> None | Some sd \<Rightarrow> passengers sd)"

definition initPassengerSelector :: "dom \<Rightarrow> world \<Rightarrow> world" where
  "initPassengerSelector d w =
     (if \<not> has_passengerSelector d then w
      else w\<lparr>selector := Some
        \<lparr>adults = num_or (map_option adults (passengers_of (state w))) 1,
         children = num_or (map_option children (passengers_of (state w))) 0,
         infants = num_or (map_option infants (passengers_of (state w))) 0\<rparr>\<rparr>)"

text \<open>A load of the booking page: the script starts from the initial session record and an
  empty view, the storage is what the previous pages left, the form fields are the ones
  of the fresh page.\<close>

definition fresh_page :: "form_inputs \<Rightarrow> world \<Rightarrow> world" where
  "fresh_page i w = \<lparr>state = initial_state, flightSearchItem = flightSearchItem w,
     bookingStateItem = bookingStateItem w, inputs = i, selector = None, toasts = [],
     flightCards = [], noFlightsDisplay = None, totalPriceText = None,
     bookingReferenceText = None\<rparr>"

definition page_load :: "dom \<Rightarrow> form_inputs \<Rightarrow> world \<Rightarrow> world" where
  "page_load d i w = initPassengerSelector d (loadSearchData (initBookingFlow d (fresh_page i w)))"

section \<open>The passenger selectors\<close>

datatype passenger_type = Adults | Children | Infants

datatype click_action = Increase | Decrease

definition count_of :: "passenger_type \<Rightarrow> passenger_counts \<Rightarrow> int" where
  "count_of kind p = (case kind of Adults \<Rightarrow> adults p | Children \<Rightarrow> children p
     | Infants \<Rightarrow> infants p)"

definition set_count :: "passenger_type \<Rightarrow> int \<Rightarrow> passenger_counts \<Rightarrow> passenger_counts" where
  "set_count kind n p = (case kind of Adults \<Rightarrow> p\<lparr>adults := n\<rparr> | Children \<Rightarrow> p\<lparr>children := n\<rparr>
     | Infants \<Rightarrow> p\<lparr>infants := n\<rparr>)"

text \<open>The click handler of the \<^verbatim>\<open>.passenger-btn\<close> buttons of the home page
  (\<^verbatim>\<open>static/js/home.js\<close>), on the global \<^verbatim>\<open>passengers\<close>.\<close>

definition home_click :: "passenger_type \<Rightarrow> click_action \<Rightarrow> passenger_counts \<Rightarrow> passenger_counts"
  where
  "home_click kind act p =
     (case act of
        Increase \<Rightarrow>
          (let max = (if kind = Infants then adults p else 9) in
           if count_of kind p < max then set_count kind (count_of kind p + 1) p else p)
      | Decrease \<Rightarrow>
          (let min = (if kind = Adults then 1 else 0) in
           if count_of kind p > min then set_count kind (count_of kind p - 1) p else p))"

text \<open>The click handler of the buttons of the booking page's selector, on its local
  \<^verbatim>\<open>passengers\<close>.\<close>

definition book_click :: "passenger_type \<Rightarrow> click_action \<Rightarrow> passenger_counts \<Rightarrow> passenger_counts"
  where
  "book_click kind act p =
     (case act of
        Increase \<Rightarrow>
          (if kind = Infants \<and> infants p \<ge> adults p then p
           else set_count kind (count_of kind p + 1) p)
      | Decrease \<Rightarrow>
          (let min = (if kind = Adults then 1 else 0) in
           if count_of kind p > min then set_count kind (count_of kind p - 1) p else p))"

text \<open>The list-based selector of the later home page: the counts, and the values offered
  by the infants list as \<^verbatim>\<open>populateInfants\<close> last built it. A click on the item \<open>i\<close> of a
  list sets the count; a click on an adults item rebuilds the infants list.\<close>

record list_selector =
  ls_passengers :: passenger_counts
  ls_infant_items :: "int list"

definition populateInfants :: "list_selector \<Rightarrow> list_selector" where
  "populateInfants st = st\<lparr>ls_infant_items := [0 .. adults (ls_passengers st)]\<rparr>"

definition list_selector_init :: list_selector where
  "list_selector_init =
     populateInfants \<lparr>ls_passengers = default_passengers, ls_infant_items = []\<rparr>"

definition items_of :: "passenger_type \<Rightarrow> list_selector \<Rightarrow> int list" where
  "items_of kind st = (case kind of Adults \<Rightarrow> [1 .. 9] | Children \<Rightarrow> [0 .. 6]
     | Infants \<Rightarrow> ls_infant_items st)"

definition item_click :: "passenger_type \<Rightarrow> int \<Rightarrow> list_selector \<Rightarrow> list_selector" where
  "item_click kind i st =
     (if i \<in> set (items_of kind st)
      then (let st' = st\<lparr>ls_passengers := set_count kind i (ls_passengers st)\<rparr> in
            if kind = Adults then populateInfants st' else st')
      else st)"

text \<open>The Apply button of the booking page's selector:
  \<^verbatim>\<open>bookingState.searchData = {...bookingState.searchData, passengers: {...passengers}}\<close>.\<close>

definition applyPassengerChanges :: "world \<Rightarrow> world" where
  "applyPassengerChanges w =
     (case selector w of
        None \<Rightarrow> w
      | Some p \<Rightarrow>
          w\<lparr>state := (state w)\<lparr>searchData :=
              Some ((case searchData (state w) of None \<Rightarrow> empty_search_data | Some sd \<Rightarrow> sd)
                      \<lparr>passengers := Some p\<rparr>)\<rparr>\<rparr>)"

definition selector_click :: "passenger_type \<Rightarrow> click_action \<Rightarrow> world \<Rightarrow> world" where
  "selector_click kind act w = w\<lparr>selector := map_option (book_click kind act) (selector w)\<rparr>"

section \<open>Searching and showing flights\<close>

definition mock_flight ::
  "string \<Rightarrow> string \<Rightarrow> string \<Rightarrow> rat \<Rightarrow> int \<Rightarrow> search_data \<Rightarrow> flight" where
  "mock_flight ident dep arr p seats sd =
     \<lparr>flight_id = ident, airline = ''SkyBook Airlines'', flightNumber = ident,
      departureCity = str_or (sd_from sd) ''Abuja'', arrivalCity = str_or (sd_to sd) ''Lagos'',
      departureTime = dep, arrivalTime = arr, departureAirport = ''ABV'',
      arrivalAirport = ''LOS'', duration = ''1h 30m'', price = p, availableSeats = seats\<rparr>"

text \<open>\<^verbatim>\<open>searchFlightsAPI\<close>: the value its promise resolves to (the delay is not modelled).\<close>

definition searchFlightsAPI :: "search_data \<Rightarrow> flight list" where
  "searchFlightsAPI sd =
     [mock_flight ''SB123'' ''08:00'' ''09:30'' (binary64 (19999 / 100)) 42 sd,
      mock_flight ''SB456'' ''14:30'' ''16:00'' (binary64 (24999 / 100)) 24 sd,
      mock_flight ''SB789'' ''19:15'' ''20:45'' (binary64 (17999 / 100)) 3 sd]"

text \<open>The seat count and the card that \<^verbatim>\<open>displayFlights\<close> computes for one flight.\<close>

definition display_totalPassengers :: "booking_state \<Rightarrow> int" where
  "display_totalPassengers s =
     num_or (map_option adults (passengers_of s)) 1
       + num_or (map_option children (passengers_of s)) 0"

definition make_card :: "booking_state \<Rightarrow> flight list \<Rightarrow> flight \<Rightarrow> flight_card" where
  "make_card s flights f =
     (let totalPassengers = display_totalPassengers s;
          totalPrice = js_times (price f) (of_int totalPassengers)
      in \<lparr>card_flightId = flight_id f,
          card_total = ''$'' @ toFixed2 totalPrice,
          card_perPerson = ''$'' @ toFixed2 (price f) @ '' per person'',
          card_flights = flights\<rparr>)"

definition displayFlights :: "dom \<Rightarrow> flight list \<Rightarrow> world \<Rightarrow> world" where
  "displayFlights d flights w =
     (if \<not> has_flightsResults d then w
      else
        (let w1 = w\<lparr>flightCards := []\<rparr> in
         if flights = []
         then (if has_noFlights d then w1\<lparr>noFlightsDisplay := Some ''block''\<rparr> else w1)
         else
           (let w2 = (if has_noFlights d then w1\<lparr>noFlightsDisplay := Some ''none''\<rparr> else w1)
            in w2\<lparr>flightCards := map (make_card (state w2) flights) flights\<rparr>)))"

text \<open>\<^verbatim>\<open>handleSearch\<close>. Reading \<^verbatim>\<open>.value\<close> of a missing field throws before anything is
  changed, outside the \<^verbatim>\<open>try\<close> block. Inside it, the save of \<^verbatim>\<open>navigateToStep\<close> can throw;
  the \<^verbatim>\<open>catch\<close> block then shows its error.\<close>

definition handleSearch :: "dom \<Rightarrow> world \<Rightarrow> outcome" where
  "handleSearch d w =
     (case (in_bookingFrom (inputs w), in_bookingTo (inputs w),
            in_bookingDeparture (inputs w), in_bookingReturn (inputs w)) of
        (Some f, Some t, Some dep, Some ret) \<Rightarrow>
          (let sd = \<lparr>sd_from = Some (trim f), sd_to = Some (trim t),
                     departureDate = Some dep, returnDate = Some ret, tripType = None,
                     passengers = Some (case passengers_of (state w) of
                                          Some p \<Rightarrow> p | None \<Rightarrow> default_passengers)\<rparr>
           in if trim f = [] then Done (showError ''Please enter departure city'' w)
              else if trim t = [] then Done (showError ''Please enter destination city'' w)
              else if toLowerCase (trim f) = toLowerCase (trim t)
                then Done (showError ''Departure and destination must be different'' w)
              else if dep = [] then Done (showError ''Please select departure date'' w)
              else
                (let w1 = w\<lparr>state := (state w)\<lparr>searchData := Some sd\<rparr>\<rparr>;
                     flights = searchFlightsAPI sd
                 in (case navigateToStep d 2 (displayFlights d flights w1) of
                       Done w2 \<Rightarrow> Done w2
                     | Threw e w2 \<Rightarrow>
                         Done (showError ''Failed to search flights. Please try again.'' w2))))
      | _ \<Rightarrow> Threw TypeError w)"

definition selectFlight :: "string \<Rightarrow> flight list \<Rightarrow> world \<Rightarrow> world" where
  "selectFlight flightId flights w =
     (case find (\<lambda>f. flight_id f = flightId) flights of
        None \<Rightarrow> w
      | Some f \<Rightarrow> w\<lparr>state := (state w)\<lparr>selectedFlight := Some f\<rparr>\<rparr>)"

text \<open>A click on the \<open>k\<close>-th rendered card (or on its button).\<close>

definition card_click :: "nat \<Rightarrow> world \<Rightarrow> world" where
  "card_click k w =
     (if k < length (flightCards w)
      then selectFlight (card_flightId (flightCards w ! k)) (card_flights (flightCards w ! k)) w
      else w)"

section \<open>Passenger details\<close>

definition validatePassengerStep :: "world \<Rightarrow> bool \<times> world" where
  "validatePassengerStep w =
     (if selectedFlight (state w) = None
      then (False, showError ''Please select a flight to continue'' w)
      else (True, w))"

text \<open>The click handler of \<^verbatim>\<open>continueToPassengers\<close>; \<^verbatim>\<open>updatePassengerForm\<close> only writes the
  flight summary.\<close>

definition continueToPassengers :: "dom \<Rightarrow> world \<Rightarrow> outcome" where
  "continueToPassengers d w =
     (case validatePassengerStep w of
        (True, w1) \<Rightarrow> navigateToStep d 3 w1
      | (False, w1) \<Rightarrow> Done w1)"

definition validatePassengerDetails :: "world \<Rightarrow> bool \<times> world" where
  "validatePassengerDetails w =
     (let name = map_option trim (in_passengerName (inputs w));
          email = map_option trim (in_passengerEmail (inputs w));
          phone = map_option trim (in_passengerPhone (inputs w))
      in if falsy name then (False, showError ''Please enter passenger name'' w)
         else if falsy email then (False, showError ''Please enter email address'' w)
         else if \<not> isValidEmail (str_or email [])
           then (False, showError ''Please enter a valid email address'' w)
         else if falsy phone then (False, showError ''Please enter phone number'' w)
         else (True, w\<lparr>state := (state w)\<lparr>passengerData :=
                 \<lparr>pd_name = name, pd_email = email, pd_phone = phone,
                  specialRequests =
                    Some (str_or (map_option trim (in_specialRequests (inputs w))) [])\<rparr>\<rparr>\<rparr>))"

definition updatePaymentSummary :: "dom \<Rightarrow> world \<Rightarrow> world" where
  "updatePaymentSummary d w =
     (case selectedFlight (state w) of
        None \<Rightarrow> w
      | Some f \<Rightarrow>
          (let p = (case passengers_of (state w) of Some p \<Rightarrow> p | None \<Rightarrow> default_passengers);
               totalPassengers = adults p + children p;
               totalPrice = js_times (price f) (of_int totalPassengers)
           in if has_totalPrice d
              then w\<lparr>totalPriceText := Some (''$'' @ toFixed2 totalPrice)\<rparr>
              else w))"

definition continueToPayment :: "dom \<Rightarrow> world \<Rightarrow> outcome" where
  "continueToPayment d w =
     (case validatePassengerDetails w of
        (True, w1) \<Rightarrow>
          and_then (navigateToStep d 4 w1) (\<lambda>w2. Done (updatePaymentSummary d w2))
      | (False, w1) \<Rightarrow> Done w1)"

section \<open>Payment and confirmation\<close>

definition validatePaymentForm :: "environment \<Rightarrow> world \<Rightarrow> bool \<times> world" where
  "validatePaymentForm env w =
     (let name = map_option trim (in_cardName (inputs w));
          number = map_option (\<lambda>v. strip_spaces (trim v)) (in_cardNumber (inputs w));
          expiry = map_option trim (in_cardExpiry (inputs w));
          cvv = map_option trim (in_cardCVV (inputs w))
      in if falsy name then (False, showError ''Please enter cardholder name'' w)
         else if falsy number then (False, showError ''Please enter card number'' w)
         else if \<not> isValidCardNumber (str_or number [])
           then (False, showError ''Please enter a valid card number'' w)
         else if falsy expiry then (False, showError ''Please enter expiry date'' w)
         else if \<not> isValidExpiryDate env (str_or expiry [])
           then (False, showError ''Please enter a valid expiry date (MM/YY)'' w)
         else if falsy cvv then (False, showError ''Please enter CVV'' w)
         else if \<not> isValidCVV (str_or cvv [])
           then (False, showError ''Please enter a valid CVV'' w)
         else (True, w\<lparr>state := (state w)\<lparr>paymentData :=
                 \<lparr>cardName = name, cardLastFour = map_option slice_last4 number,
                  expiryDate = expiry\<rparr>\<rparr>\<rparr>))"

record payment_result =
  success :: bool
  transactionId :: string

text \<open>The two simulated calls: what their promises settle to (\<open>Inl\<close> would be a rejection;
  the delays are not modelled).\<close>

definition processPayment :: "environment \<Rightarrow> js_error + payment_result" where
  "processPayment env =
     Inr \<lparr>success = True, transactionId = ''TXN_'' @ show_int (payment_now env)\<rparr>"

definition createBooking :: "environment \<Rightarrow> js_error + booking_details" where
  "createBooking env =
     (let bookingRef = ''SKB-'' @ toUpperCase (substr_2_6 (random36 env)) in
      Inr \<lparr>bookingReference = Some bookingRef, bookingId = Some (booking_now env),
           timestamp = Some (booking_iso env), status = Some ''confirmed''\<rparr>)"

text \<open>\<^verbatim>\<open>updateConfirmation\<close>, as far as the booking reference goes (assigning an
  undefined value to \<^verbatim>\<open>textContent\<close> gives the empty text).\<close>

definition updateConfirmation :: "dom \<Rightarrow> world \<Rightarrow> world" where
  "updateConfirmation d w =
     (if selectedFlight (state w) = None then w
      else if has_bookingReference d
      then w\<lparr>bookingReferenceText :=
               Some (case bookingReference (bookingDetails (state w)) of
                       Some r \<Rightarrow> r | None \<Rightarrow> [])\<rparr>
      else w)"

text \<open>The \<^verbatim>\<open>try\<close> block of \<^verbatim>\<open>handlePayment\<close>: an \<^verbatim>\<open>await\<close> of a rejected promise throws, and
  so can the save and the save of \<^verbatim>\<open>navigateToStep\<close>.\<close>

definition handlePayment_try :: "dom \<Rightarrow> environment \<Rightarrow> world \<Rightarrow> outcome" where
  "handlePayment_try d env w =
     (case processPayment env of
        Inl e \<Rightarrow> Threw e w
      | Inr paid \<Rightarrow>
          (case createBooking env of
             Inl e \<Rightarrow> Threw e w
           | Inr bookingResult \<Rightarrow>
               (let w1 = w\<lparr>state := (state w)\<lparr>bookingDetails := bookingResult,
                                                currentStep := 5\<rparr>\<rparr>
                in and_then (saveBookingState d w1)
                     (\<lambda>w2. and_then (navigateToStep d 5 w2)
                        (\<lambda>w3. Done (updateConfirmation d w3))))))"

definition handlePayment :: "dom \<Rightarrow> environment \<Rightarrow> world \<Rightarrow> world" where
  "handlePayment d env w =
     (case validatePaymentForm env w of
        (False, w1) \<Rightarrow> w1
      | (True, w1) \<Rightarrow>
          (if \<not> has_confirmBookingBtn d then w1
           else (case handlePayment_try d env w1 of
                   Done w2 \<Rightarrow> w2
                 | Threw e w2 \<Rightarrow> showError ''Payment failed. Please try again.'' w2)))"

section \<open>The wizard as a transition system\<close>

text \<open>What can happen to the booking page: the user edits the form fields, the page is
  loaded again, the home page writes the pending search, or one of the handlers that
  \<^verbatim>\<open>initEventListeners\<close>, \<^verbatim>\<open>displayFlights\<close> and the passenger selector register runs.\<close>

datatype event =
    UserInput form_inputs
  | PageLoad form_inputs
  | HomeSearch "search_data json_text"
  | SubmitSearch
  | CardClick nat
  | ModifySearch
  | BackToSearch
  | ContinueToPassengers
  | BackToFlights
  | ContinueToPayment
  | BackToPassenger
  | ConfirmBooking environment
  | SelectorClick passenger_type click_action
  | ApplyPassengers

text \<open>An exception that a handler does not catch ends the handler; the page goes on from
  what the handler had written.\<close>

definition fire :: "dom \<Rightarrow> event \<Rightarrow> world \<Rightarrow> world" where
  "fire d ev w =
     (case ev of
        UserInput i \<Rightarrow> w\<lparr>inputs := i\<rparr>
      | PageLoad i \<Rightarrow> page_load d i w
      | HomeSearch t \<Rightarrow> w\<lparr>flightSearchItem := Some t\<rparr>
      | SubmitSearch \<Rightarrow> world_of (handleSearch d w)
      | CardClick k \<Rightarrow> card_click k w
      | ModifySearch \<Rightarrow> world_of (navigateToStep d 1 w)
      | BackToSearch \<Rightarrow> world_of (navigateToStep d 1 w)
      | ContinueToPassengers \<Rightarrow> world_of (continueToPassengers d w)
      | BackToFlights \<Rightarrow> world_of (navigateToStep d 2 w)
      | ContinueToPayment \<Rightarrow> world_of (continueToPayment d w)
      | BackToPassenger \<Rightarrow> world_of (navigateToStep d 3 w)
      | ConfirmBooking env \<Rightarrow> handlePayment d env w
      | SelectorClick kind act \<Rightarrow> selector_click kind act w
      | ApplyPassengers \<Rightarrow> applyPassengerChanges w)"

text \<open>The worlds the wizard can be in, from a first load of the booking page in a browser
  whose wizard-session slot is empty. The handlers do not look at the current step, so
  any of them may run in any world.\<close>

inductive reachable :: "dom \<Rightarrow> world \<Rightarrow> bool" for d :: dom where
  first_load: "bookingStateItem w0 = None \<Longrightarrow> reachable d (page_load d i w0)"
| after_event: "reachable d w \<Longrightarrow> reachable d (fire d ev w)"

text \<open>The step is one of the five, and the payment step has the passenger details.\<close>

definition step_ok :: "booking_state \<Rightarrow> bool" where
  "step_ok s =
     (1 \<le> currentStep s \<and> currentStep s \<le> 5
      \<and> (currentStep s = 4 \<longrightarrow> pd_name (passengerData s) \<noteq> None
            \<and> pd_email (passengerData s) \<noteq> None \<and> pd_phone (passengerData s) \<noteq> None))"

definition stored_ok :: "parsed_state json_text option \<Rightarrow> bool" where
  "stored_ok item =
     (case item of
        Some (Json_object parsedState) \<Rightarrow> step_ok (copy_parsed parsedState initial_state)
      | _ \<Rightarrow> True)"

definition wizard_inv :: "world \<Rightarrow> bool" where
  "wizard_inv w = (step_ok (state w) \<and> stored_ok (bookingStateItem w))"

section \<open>The search form of the home page\<close>





section \<open>A sample page and a sample session\<close>

text \<open>A booking page with every element the handlers look up, in a browser whose storage
  accepts every text; the values a user typed; and the readings of the clock and of the
  random generator during one payment.\<close>

definition full_dom :: dom where
  "full_dom = \<lparr>has_step = (\<lambda>n. 1 \<le> n \<and> n \<le> 5), has_flightsResults = True,
     has_noFlights = True, has_totalPrice = True, has_confirmBookingBtn = True,
     has_bookingReference = True, has_passengerSelector = True,
     setItem_accepts = (\<lambda>t. True)\<rparr>"

text \<open>The same page in a browser whose storage is full.\<close>

definition full_storage_dom :: dom where
  "full_storage_dom = full_dom\<lparr>setItem_accepts := (\<lambda>t. False)\<rparr>"

definition sample_inputs :: form_inputs where
  "sample_inputs = \<lparr>in_bookingFrom = Some [], in_bookingTo = Some [],
     in_bookingDeparture = Some [], in_bookingReturn = Some [],
     in_passengerName = Some ''Ada Obi'', in_passengerEmail = Some ''ada@example.com'',
     in_passengerPhone = Some ''08012345678'', in_specialRequests = Some [],
     in_cardName = Some ''Ada Obi'', in_cardNumber = Some ''4111 1111 1111 1111'',
     in_cardExpiry = Some ''12/30'', in_cardCVV = Some ''123''\<rparr>"

definition filled_inputs :: form_inputs where
  "filled_inputs = sample_inputs\<lparr>in_bookingFrom := Some ''Abuja'',
     in_bookingTo := Some ''Lagos'', in_bookingDeparture := Some ''2030-01-15'',
     in_bookingReturn := Some ''2030-01-20''\<rparr>"

definition sample_env :: environment where
  "sample_env = \<lparr>fullYear = 2026, monthIndex = 10, payment_now = 1793000000000,
     random36 = ''0.4fzyo82mvyr'', booking_now = 1793000001000,
     booking_iso = ''2026-11-03T12:00:01.000Z''\<rparr>"

text \<open>The pending search a round-trip submission of the home page leaves behind.\<close>

definition round_trip_search :: search_data where
  "round_trip_search = \<lparr>sd_from = Some ''Abuja'', sd_to = Some ''Lagos'',
     departureDate = Some ''2030-01-15'', returnDate = Some ''2030-01-20'',
     tripType = Some ''round-trip'',
     passengers = Some \<lparr>adults = 2, children = 1, infants = 0\<rparr>\<rparr>"

definition one_way_search :: search_data where
  "one_way_search = round_trip_search\<lparr>tripType := None\<rparr>"

definition first_flight :: flight where
  "first_flight =
     mock_flight ''SB123'' ''08:00'' ''09:30'' (binary64 (19999 / 100)) 42 one_way_search"

definition sample_passenger :: passenger_data where
  "sample_passenger = \<lparr>pd_name = Some ''Ada Obi'', pd_email = Some ''ada@example.com'',
     pd_phone = Some ''08012345678'', specialRequests = Some []\<rparr>"

definition sample_payment :: payment_data where
  "sample_payment = \<lparr>cardName = Some ''Ada Obi'', cardLastFour = Some ''1111'',
     expiryDate = Some ''12/30''\<rparr>"

definition sample_booking :: booking_details where
  "sample_booking = \<lparr>bookingReference = Some ''SKB-4FZYO8'', bookingId = Some 1793000001000,
     timestamp = Some ''2026-11-03T12:00:01.000Z'', status = Some ''confirmed''\<rparr>"

definition empty_browser :: world where
  "empty_browser = \<lparr>state = initial_state, flightSearchItem = None, bookingStateItem = None,
     inputs = sample_inputs, selector = None, toasts = [], flightCards = [],
     noFlightsDisplay = None, totalPriceText = None, bookingReferenceText = None\<rparr>"

text \<open>The session: the booking page opens after a round-trip search on the home page, the
  user submits the search form, picks the first card, continues twice and confirms.\<close>

definition w_loaded :: world where
  "w_loaded = page_load full_dom sample_inputs
     (empty_browser\<lparr>flightSearchItem := Some (Json_object round_trip_search)\<rparr>)"

definition w_results :: world where
  "w_results = fire full_dom SubmitSearch w_loaded"

definition w_selected :: world where
  "w_selected = fire full_dom (CardClick 0) w_results"

definition w_details :: world where
  "w_details = fire full_dom ContinueToPassengers w_selected"

definition w_payment :: world where
  "w_payment = fire full_dom ContinueToPayment w_details"

definition w_confirmed :: world where
  "w_confirmed = fire full_dom (ConfirmBooking sample_env) w_payment"


text \<open>The payment step when, meanwhile, another tab's home page has written a pending
  search; and the search results of the page whose return date was emptied.\<close>

definition w_pending :: world where
  "w_pending = fire full_dom (HomeSearch (Json_object round_trip_search)) w_payment"


text \<open>The search results of the sample session when the user then uses the control that
  goes back to the passenger details.\<close>

definition w_back_to_passenger :: world where
  "w_back_to_passenger = fire full_dom BackToPassenger w_results"

text \<open>A browser whose wizard-session slot holds a text that is not JSON, and two whose
  slot holds a JSON object that only gives a step.\<close>

definition corrupt_browser :: world where
  "corrupt_browser = empty_browser\<lparr>bookingStateItem := Some Malformed\<rparr>"

definition only_step :: "int \<Rightarrow> parsed_state" where
  "only_step n = \<lparr>p_currentStep = Some n, p_searchData = None, p_selectedFlight = None,
     p_passengerData = None, p_paymentData = None, p_bookingDetails = None\<rparr>"

definition step_only_browser :: "int \<Rightarrow> world" where
  "step_only_browser n = empty_browser\<lparr>bookingStateItem := Some (Json_object (only_step n))\<rparr>"



text \<open>Four clicks on the buttons of the home page's selector, and three on the lists of
  the later one.\<close>

definition four_clicks :: "(passenger_type \<times> click_action) list" where
  "four_clicks = [(Adults, Increase), (Infants, Increase), (Infants, Increase),
     (Adults, Decrease)]"

definition three_picks :: "(passenger_type \<times> int) list" where
  "three_picks = [(Adults, 2), (Infants, 2), (Adults, 1)]"

section \<open>Basic facts about the handlers\<close>

lemma digits_small: "n < 10 \<Longrightarrow> digits n = [digit_chars ! n]"
  by (simp add: digits.simps)

lemma digits_large: "10 \<le> n \<Longrightarrow> digits n = digits (n div 10) @ [digit_chars ! (n mod 10)]"
  by (subst digits.simps) simp

lemma strip_spaces_idem: "strip_spaces (strip_spaces s) = strip_spaces s"
  by (simp add: strip_spaces_def)

lemma valid_card_length:
  "isValidCardNumber n \<Longrightarrow> 13 \<le> length (strip_spaces n) \<and> length (strip_spaces n) \<le> 19"
  by (auto simp: isValidCardNumber_def Let_def split: if_splits)

lemma latin1_examples:
  "toLowerCase [CHR 0xC9] = [CHR 0xE9]" "toLowerCase [CHR 0xD7] = [CHR 0xD7]"
  "trim [CHR 0xA0] = []" "strip_spaces (''4111'' @ [CHR 0xA0] @ ''1111'') = ''41111111''"
  by (simp_all add: toLowerCase_def upper_letters_def lower_letters_def latin1_capitals_def
      latin1_smalls_def trim_def strip_spaces_def is_space_def)

lemma world_of_simps [simp]: "world_of (Done w) = w" "world_of (Threw e w) = w"
  by (simp_all add: world_of_def)

lemma and_then_simps [simp]:
  "and_then (Done w) f = f w" "and_then (Threw e w) f = Threw e w"
  by (simp_all add: and_then_def)

lemma saveBookingState_accepted:
  "setItem_accepts d (JSON_stringify_state (state w)) \<Longrightarrow>
     saveBookingState d w = Done (w\<lparr>bookingStateItem := Some (JSON_stringify_state (state w))\<rparr>)"
  by (simp add: saveBookingState_def)

lemma saveBookingState_refused:
  "\<not> setItem_accepts d (JSON_stringify_state (state w)) \<Longrightarrow>
     saveBookingState d w = Threw QuotaExceededError w"
  by (simp add: saveBookingState_def)

lemma state_saveBookingState: "state (world_of (saveBookingState d w)) = state w"
  by (simp add: saveBookingState_def)

lemma state_navigateToStep:
  "state (world_of (navigateToStep d k w))
     = (if has_step d k then (state w)\<lparr>currentStep := k\<rparr> else state w)"
  by (simp add: navigateToStep_def saveBookingState_def)

lemma toasts_navigateToStep: "toasts (world_of (navigateToStep d k w)) = toasts w"
  by (simp add: navigateToStep_def saveBookingState_def)

lemma inputs_navigateToStep: "inputs (world_of (navigateToStep d k w)) = inputs w"
  by (simp add: navigateToStep_def saveBookingState_def)

lemma noFlights_navigateToStep:
  "noFlightsDisplay (world_of (navigateToStep d k w)) = noFlightsDisplay w"
  by (simp add: navigateToStep_def saveBookingState_def)

lemma pending_navigateToStep:
  "flightSearchItem (world_of (navigateToStep d k w)) = flightSearchItem w"
  by (simp add: navigateToStep_def saveBookingState_def)

lemma navigateToStep_cases:
  "navigateToStep d k w = Done (world_of (navigateToStep d k w))
   \<or> navigateToStep d k w = Threw QuotaExceededError (world_of (navigateToStep d k w))"
  by (simp add: navigateToStep_def saveBookingState_def)

lemma navigateToStep_accepted:
  "\<forall>t. setItem_accepts d t \<Longrightarrow>
     navigateToStep d k w = Done (world_of (navigateToStep d k w))"
  by (simp add: navigateToStep_def saveBookingState_def)

lemma toasts_displayFlights: "toasts (displayFlights d fs w) = toasts w"
  by (simp add: displayFlights_def Let_def)

lemma state_displayFlights: "state (displayFlights d fs w) = state w"
  by (simp add: displayFlights_def Let_def)

lemma toasts_updateConfirmation: "toasts (updateConfirmation d w) = toasts w"
  by (simp add: updateConfirmation_def)

lemma copy_parsed_stringify:
  "currentStep s \<noteq> 0 \<Longrightarrow>
     copy_parsed \<lparr>p_currentStep = Some (currentStep s), p_searchData = searchData s,
       p_selectedFlight = selectedFlight s, p_passengerData = Some (passengerData s),
       p_paymentData = Some (paymentData s), p_bookingDetails = Some (bookingDetails s)\<rparr>
       initial_state = s"
  by (simp add: copy_parsed_def initial_state_def num_or_def)

lemma validatePassengerDetails_cases:
  "validatePassengerDetails w = (ok, w1) \<Longrightarrow>
     (\<not> ok \<and> (\<exists>m. w1 = showError m w))
     \<or> (ok \<and> (\<exists>pd. w1 = w\<lparr>state := (state w)\<lparr>passengerData := pd\<rparr>\<rparr>
          \<and> pd_name pd \<noteq> None \<and> pd_email pd \<noteq> None \<and> pd_phone pd \<noteq> None))"
  by (auto simp: validatePassengerDetails_def Let_def falsy_def split: if_splits option.splits)

lemma validatePaymentForm_cases:
  "validatePaymentForm env w = (ok, w1) \<Longrightarrow>
     (\<not> ok \<and> (\<exists>m. w1 = showError m w))
     \<or> (ok \<and> (\<exists>pay. w1 = w\<lparr>state := (state w)\<lparr>paymentData := pay\<rparr>\<rparr>))"
  by (auto simp: validatePaymentForm_def Let_def split: if_splits)

lemma validatePaymentForm_toasts:
  "validatePaymentForm env w = (ok, w1) \<Longrightarrow> m \<in> set (toasts w1) \<Longrightarrow> m \<notin> set (toasts w) \<Longrightarrow>
     m \<in> {''Please enter cardholder name'', ''Please enter card number'',
       ''Please enter a valid card number'', ''Please enter expiry date'',
       ''Please enter a valid expiry date (MM/YY)'', ''Please enter CVV'',
       ''Please enter a valid CVV''}"
  by (auto simp: validatePaymentForm_def Let_def showError_def split: if_splits)

lemma validatePaymentForm_stored:
  assumes "validatePaymentForm env w = (True, w')"
  shows "\<exists>name number expiry.
     in_cardName (inputs w) = Some name \<and> in_cardNumber (inputs w) = Some number
     \<and> in_cardExpiry (inputs w) = Some expiry
     \<and> paymentData (state w') = \<lparr>cardName = Some (trim name),
          cardLastFour = Some (slice_last4 (strip_spaces (trim number))),
          expiryDate = Some (trim expiry)\<rparr>
     \<and> length (slice_last4 (strip_spaces (trim number))) = 4
     \<and> 13 \<le> length (strip_spaces (trim number))"
proof -
  from assms obtain name number expiry where
    present: "in_cardName (inputs w) = Some name" "in_cardNumber (inputs w) = Some number"
      "in_cardExpiry (inputs w) = Some expiry"
    and valid: "isValidCardNumber (strip_spaces (trim number))"
    and w': "w' = w\<lparr>state := (state w)\<lparr>paymentData :=
                 \<lparr>cardName = Some (trim name),
                  cardLastFour = Some (slice_last4 (strip_spaces (trim number))),
                  expiryDate = Some (trim expiry)\<rparr>\<rparr>\<rparr>"
    by (auto simp: validatePaymentForm_def Let_def falsy_def str_or_def
        split: if_splits option.splits)
  from valid_card_length [OF valid] have len: "13 \<le> length (strip_spaces (trim number))"
    by (simp add: strip_spaces_idem)
  then have "length (slice_last4 (strip_spaces (trim number))) = 4"
    by (simp add: slice_last4_def)
  with present w' len show ?thesis by simp
qed

text \<open>What \<^verbatim>\<open>handlePayment\<close> does once the form is accepted: the session record is at step 5
  with the booking before the first save; the rest depends on the storage.\<close>

lemma handlePayment_accepted:
  assumes "validatePaymentForm env w = (True, w1)" "has_confirmBookingBtn d"
    "createBooking env = Inr b"
    "setItem_accepts d
       (JSON_stringify_state ((state w1)\<lparr>bookingDetails := b, currentStep := 5\<rparr>))"
  shows "handlePayment d env w = updateConfirmation d
     (w1\<lparr>state := (state w1)\<lparr>bookingDetails := b, currentStep := 5\<rparr>,
         bookingStateItem := Some (JSON_stringify_state
           ((state w1)\<lparr>bookingDetails := b, currentStep := 5\<rparr>))\<rparr>)"
  using assms
  by (simp add: handlePayment_def handlePayment_try_def processPayment_def Let_def
      saveBookingState_def navigateToStep_def)

lemma handlePayment_refused:
  assumes "validatePaymentForm env w = (True, w1)" "has_confirmBookingBtn d"
    "createBooking env = Inr b"
    "\<not> setItem_accepts d
       (JSON_stringify_state ((state w1)\<lparr>bookingDetails := b, currentStep := 5\<rparr>))"
  shows "handlePayment d env w = showError ''Payment failed. Please try again.''
     (w1\<lparr>state := (state w1)\<lparr>bookingDetails := b, currentStep := 5\<rparr>\<rparr>)"
  using assms
  by (simp add: handlePayment_def handlePayment_try_def processPayment_def Let_def
      saveBookingState_def)

lemma handlePayment_state:
  assumes "validatePaymentForm env w = (True, w1)" "has_confirmBookingBtn d"
    "createBooking env = Inr b"
  shows "state (handlePayment d env w) = (state w1)\<lparr>bookingDetails := b, currentStep := 5\<rparr>"
proof (cases "setItem_accepts d
       (JSON_stringify_state ((state w1)\<lparr>bookingDetails := b, currentStep := 5\<rparr>))")
  case True
  then show ?thesis
    by (simp add: handlePayment_accepted [OF assms] updateConfirmation_def)
next
  case False
  then show ?thesis
    by (simp add: handlePayment_refused [OF assms] showError_def)
qed

lemma handlePayment_pending:
  "flightSearchItem (handlePayment d env w) = flightSearchItem w"
proof -
  obtain ok w1 where v: "validatePaymentForm env w = (ok, w1)"
    by (cases "validatePaymentForm env w")
  from validatePaymentForm_cases [OF v] have "flightSearchItem w1 = flightSearchItem w"
    by (auto simp: showError_def)
  with v show ?thesis
    by (cases ok) (simp_all add: handlePayment_def handlePayment_try_def processPayment_def
        createBooking_def Let_def updateConfirmation_def navigateToStep_def saveBookingState_def
        showError_def)
qed

section \<open>The sample session, step by step\<close>

lemma trim_samples:
  "trim ''Abuja'' = ''Abuja''" "trim ''Lagos'' = ''Lagos''" "trim ''Ada Obi'' = ''Ada Obi''"
  "trim ''ada@example.com'' = ''ada@example.com''" "trim ''08012345678'' = ''08012345678''"
  "trim [] = []" "trim ''4111 1111 1111 1111'' = ''4111 1111 1111 1111''"
  "trim ''12/30'' = ''12/30''" "trim ''123'' = ''123''"
  by (simp_all add: trim_def is_space_def)

lemma cities_differ: "toLowerCase ''Abuja'' \<noteq> toLowerCase ''Lagos''"
  by (simp add: toLowerCase_def upper_letters_def lower_letters_def latin1_capitals_def
      latin1_smalls_def)

lemma sample_email_valid: "isValidEmail ''ada@example.com''"
  by (simp add: isValidEmail_def plain_char_def is_space_def has_inner_dot_def Let_def upt_rec)

lemma sample_card_stripped: "strip_spaces ''4111 1111 1111 1111'' = ''4111111111111111''"
  by (simp add: strip_spaces_def is_space_def)

lemma sample_card_valid: "isValidCardNumber ''4111111111111111''"
  by (simp add: isValidCardNumber_def all_digits1_def digits_13_19_def strip_spaces_def
      is_space_def is_digit_def)

lemma sample_expiry_valid: "isValidExpiryDate sample_env ''12/30''"
  by (simp add: isValidExpiryDate_def sample_env_def is_digit_def parseInt2_def digit_val_def
      digit_chars_def)

lemma sample_cvv_valid: "isValidCVV ''123''"
  by (simp add: isValidCVV_def is_digit_def)

lemma createBooking_sample: "createBooking sample_env = Inr sample_booking"
  by (simp add: createBooking_def sample_env_def sample_booking_def substr_2_6_def
      toUpperCase_def lower_letters_def upper_letters_def)

lemma full_dom_accepts: "setItem_accepts full_dom t" "has_step full_dom k = (1 \<le> k \<and> k \<le> 5)"
  by (simp_all add: full_dom_def)

lemma populate_sample: "populate_fields round_trip_search sample_inputs = filled_inputs"
  by (simp add: populate_fields_def sample_inputs_def round_trip_search_def str_or_def
      falsy_def filled_inputs_def)

lemma w_loaded_eq:
  "w_loaded = empty_browser\<lparr>state := initial_state\<lparr>searchData := Some round_trip_search\<rparr>,
     inputs := filled_inputs, selector := Some \<lparr>adults = 2, children = 1, infants = 0\<rparr>\<rparr>"
proof -
  have "w_loaded = empty_browser
      \<lparr>state := initial_state\<lparr>searchData := Some round_trip_search\<rparr>,
       inputs := populate_fields round_trip_search sample_inputs,
       selector := Some \<lparr>adults = 2, children = 1, infants = 0\<rparr>\<rparr>"
    by (simp add: w_loaded_def page_load_def initPassengerSelector_def loadSearchData_def
        initBookingFlow_def fresh_page_def empty_browser_def JSON_parse_def full_dom_def
        round_trip_search_def passengers_of_def num_or_def)
  then show ?thesis by (simp only: populate_sample)
qed

lemma w_results_eq:
  "w_results = world_of (navigateToStep full_dom 2
     (displayFlights full_dom (searchFlightsAPI one_way_search)
        (w_loaded\<lparr>state := (state w_loaded)\<lparr>searchData := Some one_way_search\<rparr>\<rparr>)))"
  by (simp add: w_results_def fire_def handleSearch_def w_loaded_eq filled_inputs_def
      sample_inputs_def Let_def trim_samples cities_differ one_way_search_def
      round_trip_search_def passengers_of_def navigateToStep_def saveBookingState_def
      full_dom_accepts)

lemma w_results_state:
  "state w_results = initial_state\<lparr>searchData := Some one_way_search, currentStep := 2\<rparr>"
  by (simp add: w_results_eq state_navigateToStep state_displayFlights full_dom_accepts
      w_loaded_eq)

lemma w_results_cards:
  "flightCards w_results
     = map (make_card (state w_results) (searchFlightsAPI one_way_search))
         (searchFlightsAPI one_way_search)"
  by (simp add: w_results_eq navigateToStep_def saveBookingState_def displayFlights_def Let_def
      full_dom_def w_loaded_eq searchFlightsAPI_def make_card_def display_totalPassengers_def
      passengers_of_def)

lemma w_results_first_card:
  "card_flightId (flightCards w_results ! 0) = ''SB123''
   \<and> card_flights (flightCards w_results ! 0) = searchFlightsAPI one_way_search
   \<and> flightCards w_results \<noteq> []"
  by (simp add: w_results_cards searchFlightsAPI_def make_card_def mock_flight_def)

lemma w_selected_state:
  "state w_selected = initial_state\<lparr>searchData := Some one_way_search, currentStep := 2,
     selectedFlight := Some first_flight\<rparr>"
  using w_results_first_card
  by (simp add: w_selected_def fire_def card_click_def selectFlight_def w_results_state
      searchFlightsAPI_def mock_flight_def first_flight_def)

lemma w_details_state:
  "state w_details = initial_state\<lparr>searchData := Some one_way_search, currentStep := 3,
     selectedFlight := Some first_flight\<rparr>"
  by (simp add: w_details_def fire_def continueToPassengers_def validatePassengerStep_def
      w_selected_state state_navigateToStep full_dom_accepts)

lemma inputs_card_click: "inputs (card_click k w) = inputs w"
  by (simp add: card_click_def selectFlight_def split: option.splits)

lemma toasts_card_click: "toasts (card_click k w) = toasts w"
  by (simp add: card_click_def selectFlight_def split: option.splits)

lemma inputs_continueToPassengers: "inputs (world_of (continueToPassengers d w)) = inputs w"
  by (simp add: continueToPassengers_def validatePassengerStep_def showError_def
      inputs_navigateToStep)

lemma w_results_inputs: "inputs w_results = filled_inputs"
  by (simp add: w_results_eq inputs_navigateToStep displayFlights_def Let_def w_loaded_eq)

lemma w_details_inputs: "inputs w_details = filled_inputs"
  by (simp add: w_details_def w_selected_def fire_def inputs_continueToPassengers
      inputs_card_click w_results_inputs)

lemma details_accepted:
  "validatePassengerDetails w_details
     = (True, w_details\<lparr>state := (state w_details)\<lparr>passengerData := sample_passenger\<rparr>\<rparr>)"
  by (simp add: validatePassengerDetails_def w_details_inputs filled_inputs_def
      sample_inputs_def Let_def trim_samples falsy_def str_or_def sample_email_valid
      sample_passenger_def)

lemma w_payment_state:
  "state w_payment = initial_state\<lparr>searchData := Some one_way_search, currentStep := 4,
     selectedFlight := Some first_flight, passengerData := sample_passenger\<rparr>"
  by (simp add: w_payment_def fire_def continueToPayment_def details_accepted w_details_state
      updatePaymentSummary_def navigateToStep_def saveBookingState_def full_dom_def Let_def)

lemma w_payment_inputs: "inputs w_payment = filled_inputs"
  by (simp add: w_payment_def fire_def continueToPayment_def details_accepted w_details_inputs
      updatePaymentSummary_def navigateToStep_def saveBookingState_def full_dom_def Let_def
      split: option.splits)

lemma payment_accepted:
  "validatePaymentForm sample_env w_payment
     = (True, w_payment\<lparr>state := (state w_payment)\<lparr>paymentData := sample_payment\<rparr>\<rparr>)"
  by (simp add: validatePaymentForm_def w_payment_inputs filled_inputs_def sample_inputs_def
      Let_def trim_samples falsy_def str_or_def sample_card_stripped sample_card_valid
      sample_expiry_valid sample_cvv_valid sample_payment_def slice_last4_def)

lemma sample_session_reachable: "reachable full_dom w_payment \<and> reachable full_dom w_results"
proof -
  have r0: "reachable full_dom w_loaded"
    unfolding w_loaded_def by (rule reachable.first_load) (simp add: empty_browser_def)
  have r1: "reachable full_dom w_results"
    unfolding w_results_def by (rule reachable.after_event [OF r0])
  have r2: "reachable full_dom w_selected"
    unfolding w_selected_def by (rule reachable.after_event [OF r1])
  have r3: "reachable full_dom w_details"
    unfolding w_details_def by (rule reachable.after_event [OF r2])
  have r4: "reachable full_dom w_payment"
    unfolding w_payment_def by (rule reachable.after_event [OF r3])
  from r4 r1 show ?thesis by simp
qed

lemma sample_session_quiet: "toasts w_payment = []"
proof -
  have t1: "toasts w_results = []"
    by (simp add: w_results_eq toasts_navigateToStep toasts_displayFlights w_loaded_eq
        empty_browser_def)
  have t2: "toasts w_selected = []"
    by (simp add: w_selected_def fire_def toasts_card_click t1)
  have chosen: "selectedFlight (state w_selected) \<noteq> None"
    by (simp add: w_selected_state)
  have t3: "toasts w_details = []"
    using chosen
    by (auto simp: w_details_def fire_def continueToPassengers_def validatePassengerStep_def
        toasts_navigateToStep t2)
  show ?thesis
    by (simp add: w_payment_def fire_def continueToPayment_def details_accepted
        updatePaymentSummary_def navigateToStep_def saveBookingState_def full_dom_def Let_def
        t3 split: option.splits)
qed

section \<open>Prices\<close>

lemma binary64_199_99: "binary64 (19999 / 100) = 879565321755689 / 4398046511104"
  by code_simp

lemma triple_199_99:
  "js_times (879565321755689 / 4398046511104) 3 = 2638695965267067 / 4398046511104"
  by code_simp

lemma cents_599_97: "\<lfloor>\<bar>2638695965267067 / 4398046511104 :: rat\<bar> * 100 + 1 / 2\<rfloor> = 59997"
  by (simp add: floor_eq_iff)

lemma total_599_97: "toFixed2 (js_times (binary64 (19999 / 100)) 3) = ''599.97''"
  unfolding binary64_199_99 triple_199_99 toFixed2_def Let_def cents_599_97
  by (simp add: digits_small digits_large digit_chars_def)

lemma card_totals:
  assumes "passengers_of (state w) = Some p" "adults p \<noteq> 0" "has_flightsResults d"
    "flights \<noteq> []"
  shows "map card_total (flightCards (displayFlights d flights w))
     = map (\<lambda>f. ''$'' @ toFixed2 (js_times (price f) (of_int (adults p + children p)))) flights"
  using assms
  by (simp add: displayFlights_def Let_def make_card_def display_totalPassengers_def num_or_def)

lemma card_totals_default:
  assumes "passengers_of (state w) = None" "has_flightsResults d" "flights \<noteq> []"
  shows "map card_total (flightCards (displayFlights d flights w))
     = map (\<lambda>f. ''$'' @ toFixed2 (js_times (price f) 1)) flights"
  using assms
  by (simp add: displayFlights_def Let_def make_card_def display_totalPassengers_def num_or_def)

lemma summary_total:
  assumes "passengers_of (state w) = Some p" "selectedFlight (state w) = Some f"
    "has_totalPrice d"
  shows "totalPriceText (updatePaymentSummary d w)
     = Some (''$'' @ toFixed2 (js_times (price f) (of_int (adults p + children p))))"
  using assms by (simp add: updatePaymentSummary_def Let_def)

lemma summary_total_default:
  assumes "passengers_of (state w) = None" "selectedFlight (state w) = Some f"
    "has_totalPrice d"
  shows "totalPriceText (updatePaymentSummary d w)
     = Some (''$'' @ toFixed2 (js_times (price f) 1))"
  using assms by (simp add: updatePaymentSummary_def Let_def default_passengers_def)

section \<open>The passenger selectors keep the bound except when adults decrease\<close>

lemma home_click_infant_noop:
  "adults p \<le> infants p \<Longrightarrow> home_click Infants Increase p = p"
  by (simp add: home_click_def count_of_def)

lemma book_click_infant_noop:
  "adults p \<le> infants p \<Longrightarrow> book_click Infants Increase p = p"
  by (simp add: book_click_def)

lemma home_click_keeps_bound:
  "infants p \<le> adults p \<Longrightarrow> \<not> (kind = Adults \<and> act = Decrease) \<Longrightarrow>
     infants (home_click kind act p) \<le> adults (home_click kind act p)"
  by (cases kind; cases act) (auto simp: home_click_def count_of_def set_count_def Let_def)

lemma book_click_keeps_bound:
  "infants p \<le> adults p \<Longrightarrow> \<not> (kind = Adults \<and> act = Decrease) \<Longrightarrow>
     infants (book_click kind act p) \<le> adults (book_click kind act p)"
  by (cases kind; cases act) (auto simp: book_click_def count_of_def set_count_def Let_def)

section \<open>The invariant of the wizard\<close>

lemma step_ok_initial: "step_ok initial_state"
  by (simp add: step_ok_def initial_state_def)

lemma step_ok_cong:
  "currentStep s' = currentStep s \<Longrightarrow> passengerData s' = passengerData s \<Longrightarrow>
     step_ok s' = step_ok s"
  by (simp add: step_ok_def)

lemma step_ok_not_payment: "1 \<le> k \<Longrightarrow> k \<le> 5 \<Longrightarrow> k \<noteq> 4 \<Longrightarrow> step_ok (s\<lparr>currentStep := k\<rparr>)"
  by (simp add: step_ok_def)

lemma stored_ok_stringify: "step_ok s \<Longrightarrow> stored_ok (Some (JSON_stringify_state s))"
  by (simp add: stored_ok_def JSON_stringify_state_def copy_parsed_stringify step_ok_def)

lemma inv_save: "wizard_inv w \<Longrightarrow> wizard_inv (world_of (saveBookingState d w))"
  by (simp add: wizard_inv_def saveBookingState_def stored_ok_stringify)

lemma inv_navigate:
  "wizard_inv w \<Longrightarrow> step_ok ((state w)\<lparr>currentStep := k\<rparr>) \<Longrightarrow>
     wizard_inv (world_of (navigateToStep d k w))"
  by (simp add: navigateToStep_def wizard_inv_def saveBookingState_def stored_ok_stringify)

lemma inv_other:
  "wizard_inv w \<Longrightarrow> bookingStateItem w' = bookingStateItem w \<Longrightarrow>
   currentStep (state w') = currentStep (state w) \<Longrightarrow>
   passengerData (state w') = passengerData (state w) \<Longrightarrow> wizard_inv w'"
  using step_ok_cong [of "state w'" "state w"] by (simp add: wizard_inv_def)

lemma inv_initBookingFlow:
  assumes "stored_ok (bookingStateItem w)"
  shows "wizard_inv (initBookingFlow d (fresh_page i w))"
proof (cases "bookingStateItem w")
  case None
  then show ?thesis
    by (simp add: initBookingFlow_def fresh_page_def wizard_inv_def step_ok_initial stored_ok_def)
next
  case (Some t)
  show ?thesis
  proof (cases t)
    case Malformed
    with Some show ?thesis
      by (simp add: initBookingFlow_def fresh_page_def wizard_inv_def step_ok_initial
          stored_ok_def restore_try_def JSON_parse_def)
  next
    case Json_null
    with Some show ?thesis
      by (simp add: initBookingFlow_def fresh_page_def wizard_inv_def step_ok_initial
          stored_ok_def restore_try_def JSON_parse_def)
  next
    case (Json_object p)
    let ?w1 = "(fresh_page i w)\<lparr>state := copy_parsed p initial_state\<rparr>"
    from assms Some Json_object have ok: "step_ok (copy_parsed p initial_state)"
      by (simp add: stored_ok_def)
    with assms have "wizard_inv ?w1"
      by (simp add: wizard_inv_def fresh_page_def)
    then have "wizard_inv (world_of (navigateToStep d (currentStep (state ?w1)) ?w1))"
      by (rule inv_navigate) (simp add: ok)
    with Some Json_object show ?thesis
      by (simp add: initBookingFlow_def restore_try_def JSON_parse_def Let_def fresh_page_def
          world_of_def)
  qed
qed

lemma inv_loadSearchData: "wizard_inv w \<Longrightarrow> wizard_inv (loadSearchData w)"
  by (erule inv_other) (simp_all add: loadSearchData_def split: option.splits sum.splits)

lemma inv_initPassengerSelector: "wizard_inv w \<Longrightarrow> wizard_inv (initPassengerSelector d w)"
  by (erule inv_other) (simp_all add: initPassengerSelector_def)

lemma inv_page_load: "stored_ok (bookingStateItem w) \<Longrightarrow> wizard_inv (page_load d i w)"
  by (simp add: page_load_def inv_initPassengerSelector inv_loadSearchData inv_initBookingFlow)

lemma inv_displayFlights: "wizard_inv w \<Longrightarrow> wizard_inv (displayFlights d fs w)"
  by (erule inv_other) (simp_all add: displayFlights_def Let_def)

lemma inv_showError: "wizard_inv w \<Longrightarrow> wizard_inv (showError m w)"
  by (erule inv_other) (simp_all add: showError_def)

lemma inv_handleSearch:
  assumes "wizard_inv w"
  shows "wizard_inv (world_of (handleSearch d w))"
proof -
  have set: "wizard_inv (w\<lparr>state := (state w)\<lparr>searchData := x\<rparr>\<rparr>)" for x
    using assms by (rule inv_other) simp_all
  have go: "wizard_inv (world_of (navigateToStep d 2
      (displayFlights d fs (w\<lparr>state := (state w)\<lparr>searchData := x\<rparr>\<rparr>))))" for fs x
    by (rule inv_navigate [OF inv_displayFlights [OF set]]) (simp add: step_ok_not_payment)
  have caught: "wizard_inv (world_of (case r of Done w2 \<Rightarrow> Done w2
      | Threw e w2 \<Rightarrow> Done (showError m w2)))" if "wizard_inv (world_of r)" for r m
    using that by (cases r) (simp_all add: inv_showError)
  show ?thesis
    using assms
    by (auto simp: handleSearch_def Let_def inv_showError caught [OF go]
        split: option.splits if_splits)
qed

lemma inv_card_click: "wizard_inv w \<Longrightarrow> wizard_inv (card_click k w)"
  by (erule inv_other)
    (simp_all add: card_click_def selectFlight_def split: option.splits)

lemma inv_continueToPassengers:
  "wizard_inv w \<Longrightarrow> wizard_inv (world_of (continueToPassengers d w))"
  by (auto simp: continueToPassengers_def validatePassengerStep_def inv_showError
      inv_navigate step_ok_not_payment)

lemma inv_updatePaymentSummary: "wizard_inv w \<Longrightarrow> wizard_inv (updatePaymentSummary d w)"
  by (erule inv_other) (simp_all add: updatePaymentSummary_def Let_def split: option.splits)

lemma inv_continueToPayment:
  assumes inv: "wizard_inv w"
  shows "wizard_inv (world_of (continueToPayment d w))"
proof -
  obtain ok w1 where v: "validatePassengerDetails w = (ok, w1)"
    by (cases "validatePassengerDetails w")
  from validatePassengerDetails_cases [OF v] show ?thesis
  proof (elim disjE conjE exE)
    fix m assume "\<not> ok" "w1 = showError m w"
    with v inv show ?thesis by (simp add: continueToPayment_def inv_showError)
  next
    fix pd assume ok: ok and w1: "w1 = w\<lparr>state := (state w)\<lparr>passengerData := pd\<rparr>\<rparr>"
      and pd: "pd_name pd \<noteq> None" "pd_email pd \<noteq> None" "pd_phone pd \<noteq> None"
    from inv have inv1: "wizard_inv w1"
      by (simp add: w1 wizard_inv_def step_ok_def pd)
    have moved: "wizard_inv (world_of (navigateToStep d 4 w1))"
      using inv1 by (rule inv_navigate) (simp add: w1 step_ok_def pd)
    have "wizard_inv (world_of (and_then (navigateToStep d 4 w1)
        (\<lambda>w2. Done (updatePaymentSummary d w2))))"
      using moved by (cases "navigateToStep d 4 w1") (simp_all add: inv_updatePaymentSummary)
    with v ok show ?thesis
      by (simp add: continueToPayment_def)
  qed
qed

lemma inv_updateConfirmation: "wizard_inv w \<Longrightarrow> wizard_inv (updateConfirmation d w)"
  by (erule inv_other) (simp_all add: updateConfirmation_def)

lemma inv_handlePayment:
  assumes inv: "wizard_inv w"
  shows "wizard_inv (handlePayment d env w)"
proof -
  obtain ok w1 where v: "validatePaymentForm env w = (ok, w1)"
    by (cases "validatePaymentForm env w")
  obtain b where b: "createBooking env = Inr b"
    by (simp add: createBooking_def)
  from validatePaymentForm_cases [OF v] show ?thesis
  proof (elim disjE conjE exE)
    fix m assume "\<not> ok" "w1 = showError m w"
    with v inv show ?thesis by (simp add: handlePayment_def inv_showError)
  next
    fix pay assume ok: ok and w1: "w1 = w\<lparr>state := (state w)\<lparr>paymentData := pay\<rparr>\<rparr>"
    have inv1: "wizard_inv w1"
      using inv by (rule inv_other) (simp_all add: w1)
    let ?s5 = "(state w1)\<lparr>bookingDetails := b, currentStep := 5\<rparr>"
    have five: "step_ok ?s5"
      by (simp add: step_ok_def)
    show ?thesis
    proof (cases "has_confirmBookingBtn d")
      case False
      with v ok inv1 show ?thesis by (simp add: handlePayment_def)
    next
      case True
      from v ok have v': "validatePaymentForm env w = (True, w1)" by simp
      show ?thesis
      proof (cases "setItem_accepts d (JSON_stringify_state ?s5)")
        case accepted: True
        have "wizard_inv (w1\<lparr>state := ?s5,
            bookingStateItem := Some (JSON_stringify_state ?s5)\<rparr>)"
          using five by (simp add: wizard_inv_def stored_ok_stringify)
        then show ?thesis
          by (simp add: handlePayment_accepted [OF v' True b accepted] inv_updateConfirmation)
      next
        case refused: False
        have "wizard_inv (w1\<lparr>state := ?s5\<rparr>)"
          using five inv1 by (simp add: wizard_inv_def)
        then show ?thesis
          by (simp add: handlePayment_refused [OF v' True b refused] inv_showError)
      qed
    qed
  qed
qed

lemma inv_fire:
  assumes "wizard_inv w"
  shows "wizard_inv (fire d ev w)"
proof (cases ev)
  case (UserInput i)
  then show ?thesis using assms by (simp add: fire_def wizard_inv_def)
next
  case (PageLoad i)
  from assms have "stored_ok (bookingStateItem w)" by (simp add: wizard_inv_def)
  with PageLoad show ?thesis by (simp add: fire_def inv_page_load)
next
  case (HomeSearch t)
  then show ?thesis using assms by (simp add: fire_def wizard_inv_def)
next
  case SubmitSearch
  then show ?thesis using assms by (simp add: fire_def inv_handleSearch)
next
  case (CardClick k)
  then show ?thesis using assms by (simp add: fire_def inv_card_click)
next
  case ModifySearch
  then show ?thesis using assms by (simp add: fire_def inv_navigate step_ok_not_payment)
next
  case BackToSearch
  then show ?thesis using assms by (simp add: fire_def inv_navigate step_ok_not_payment)
next
  case ContinueToPassengers
  then show ?thesis using assms by (simp add: fire_def inv_continueToPassengers)
next
  case BackToFlights
  then show ?thesis using assms by (simp add: fire_def inv_navigate step_ok_not_payment)
next
  case ContinueToPayment
  then show ?thesis using assms by (simp add: fire_def inv_continueToPayment)
next
  case BackToPassenger
  then show ?thesis using assms by (simp add: fire_def inv_navigate step_ok_not_payment)
next
  case (ConfirmBooking env)
  then show ?thesis using assms by (simp add: fire_def inv_handlePayment)
next
  case (SelectorClick kind act)
  then show ?thesis using assms by (simp add: fire_def selector_click_def wizard_inv_def)
next
  case ApplyPassengers
  have "wizard_inv (applyPassengerChanges w)"
    using assms
    by (rule inv_other) (simp_all add: applyPassengerChanges_def split: option.splits)
  with ApplyPassengers show ?thesis by (simp add: fire_def)
qed

lemma reachable_inv: "reachable d w \<Longrightarrow> wizard_inv w"
proof (induction rule: reachable.induct)
  case (first_load w0 i)
  then show ?case by (simp add: inv_page_load stored_ok_def)
next
  case (after_event w ev)
  then show ?case by (simp add: inv_fire)
qed

section \<open>Confirming the sample booking\<close>

lemma w_confirmed_eq:
  "w_confirmed = handlePayment full_dom sample_env w_payment"
  by (simp add: w_confirmed_def fire_def)

lemma pending_accepted:
  "validatePaymentForm sample_env w_pending
     = (True, w_pending\<lparr>state := (state w_pending)\<lparr>paymentData := sample_payment\<rparr>\<rparr>)"
  by (simp add: validatePaymentForm_def w_pending_def fire_def w_payment_inputs
      filled_inputs_def sample_inputs_def Let_def trim_samples falsy_def str_or_def
      sample_card_stripped sample_card_valid sample_expiry_valid sample_cvv_valid
      sample_payment_def slice_last4_def)



section \<open>The claims\<close>

subsection \<open>C1: the guard of the search form\<close>




subsection \<open>C2: the total price of an offer\<close>

text \<open>
  C2. The total shown on every flight card and in the payment summary is the price per
  seat times adults plus children, formatted with two decimals; the infants do not enter
  it. The cards need the adult count to be non-zero, which the data model guarantees
  (adults are at least 1). When the session has no passenger counts, both use one seat.
  A seat at 199.99 for two adults and one child gives 599.97.
\<close>

theorem total_price_adults_plus_children:
  "(passengers_of (state w) = Some p \<and> adults p \<noteq> 0 \<and> has_flightsResults d \<and> flights \<noteq> []
      \<longrightarrow> map card_total (flightCards (displayFlights d flights w))
          = map (\<lambda>f. ''$'' @ toFixed2 (js_times (price f) (of_int (adults p + children p))))
              flights)
   \<and> (passengers_of (state w) = Some p \<and> selectedFlight (state w) = Some f
        \<and> has_totalPrice d
      \<longrightarrow> totalPriceText (updatePaymentSummary d w)
          = Some (''$'' @ toFixed2 (js_times (price f) (of_int (adults p + children p)))))
   \<and> (passengers_of (state w) = None \<and> has_flightsResults d \<and> flights \<noteq> []
      \<longrightarrow> map card_total (flightCards (displayFlights d flights w))
          = map (\<lambda>f. ''$'' @ toFixed2 (js_times (price f) 1)) flights)
   \<and> (passengers_of (state w) = None \<and> selectedFlight (state w) = Some f \<and> has_totalPrice d
      \<longrightarrow> totalPriceText (updatePaymentSummary d w)
          = Some (''$'' @ toFixed2 (js_times (price f) 1)))
   \<and> toFixed2 (js_times (binary64 (19999 / 100)) (of_int (2 + 1))) = ''599.97''"
  using card_totals [of w p d flights] summary_total [of w p f d]
    card_totals_default [of w d flights] summary_total_default [of w f d] total_599_97
  by simp

text \<open>In the sample session, with two adults and a child, the first card and the payment
  summary show 599.97 for the flight at 199.99.\<close>

theorem total_price_adults_plus_children_witness:
  "passengers_of (state w_results) = Some \<lparr>adults = 2, children = 1, infants = 0\<rparr>
   \<and> has_flightsResults full_dom \<and> searchFlightsAPI one_way_search \<noteq> []
   \<and> map card_total
        (flightCards (displayFlights full_dom (searchFlightsAPI one_way_search) w_results)) ! 0
       = ''$599.97''
   \<and> selectedFlight (state w_payment) = Some first_flight \<and> has_totalPrice full_dom
   \<and> totalPriceText (updatePaymentSummary full_dom w_payment) = Some ''$599.97''"
proof -
  have counts: "passengers_of (state w_results) = Some \<lparr>adults = 2, children = 1, infants = 0\<rparr>"
    "passengers_of (state w_payment) = Some \<lparr>adults = 2, children = 1, infants = 0\<rparr>"
    by (simp_all add: w_results_state w_payment_state passengers_of_def one_way_search_def
        round_trip_search_def)
  have page: "has_flightsResults full_dom" "has_totalPrice full_dom"
    by (simp_all add: full_dom_def)
  have offers: "searchFlightsAPI one_way_search \<noteq> []"
    by (simp add: searchFlightsAPI_def)
  have chosen: "selectedFlight (state w_payment) = Some first_flight"
    by (simp add: w_payment_state)
  have seat: "price first_flight = binary64 (19999 / 100)"
    "price (hd (searchFlightsAPI one_way_search)) = binary64 (19999 / 100)"
    by (simp_all add: first_flight_def searchFlightsAPI_def mock_flight_def)
  from total_price_adults_plus_children [where w = w_results
      and p = "\<lparr>adults = 2, children = 1, infants = 0\<rparr>" and d = full_dom
      and flights = "searchFlightsAPI one_way_search"]
  have cards: "map card_total
        (flightCards (displayFlights full_dom (searchFlightsAPI one_way_search) w_results)) ! 0
       = ''$599.97''"
    using counts page offers
    by (simp add: searchFlightsAPI_def mock_flight_def total_599_97)
  from total_price_adults_plus_children [where w = w_payment
      and p = "\<lparr>adults = 2, children = 1, infants = 0\<rparr>" and d = full_dom
      and f = first_flight]
  have summary: "totalPriceText (updatePaymentSummary full_dom w_payment) = Some ''$599.97''"
    using counts page chosen seat by (simp add: total_599_97)
  from counts page offers cards chosen summary show ?thesis by simp
qed


subsection \<open>C3: after a successful booking\<close>

text \<open>
  C3, as the code has it. When the payment form is accepted and the page has the confirm
  button, \<^verbatim>\<open>handlePayment\<close> puts the wizard at step 5 holding the record that
  \<^verbatim>\<open>createBooking\<close> returned, and leaves the pending-search slot as it was
  (\<^verbatim>\<open>loadSearchData\<close> removes it when the page loads). It writes the session record, as it
  then is, to the wizard-session slot: the slot is not cleared. When the storage accepts
  that write, the slot holds the serialised session record, no error is shown and, when a
  flight is selected and the page has the reference element, the reference shown is the
  returned one. When the storage refuses it, the slot keeps what it held.
\<close>

theorem handlePayment_success:
  assumes "validatePaymentForm env w = (True, w1)" "has_confirmBookingBtn d"
    "createBooking env = Inr b"
  shows "currentStep (state (handlePayment d env w)) = 5
     \<and> bookingDetails (state (handlePayment d env w)) = b
     \<and> flightSearchItem (handlePayment d env w) = flightSearchItem w
     \<and> (setItem_accepts d (JSON_stringify_state (state (handlePayment d env w))) \<longrightarrow>
          bookingStateItem (handlePayment d env w)
            = Some (JSON_stringify_state (state (handlePayment d env w)))
          \<and> toasts (handlePayment d env w) = toasts w
          \<and> (selectedFlight (state w) \<noteq> None \<and> has_bookingReference d \<longrightarrow>
               bookingReferenceText (handlePayment d env w) = bookingReference b
               \<and> (\<exists>r. bookingReference b = Some r)))
     \<and> (\<not> setItem_accepts d (JSON_stringify_state (state (handlePayment d env w))) \<longrightarrow>
          bookingStateItem (handlePayment d env w) = bookingStateItem w)"
proof -
  let ?s5 = "(state w1)\<lparr>bookingDetails := b, currentStep := 5\<rparr>"
  from validatePaymentForm_cases [OF assms(1)] obtain pay
    where w1: "w1 = w\<lparr>state := (state w)\<lparr>paymentData := pay\<rparr>\<rparr>" by auto
  from assms(3) have ref: "\<exists>r. bookingReference b = Some r"
    by (auto simp: createBooking_def Let_def)
  have st: "state (handlePayment d env w) = ?s5"
    by (rule handlePayment_state [OF assms])
  have accepted: "bookingStateItem (handlePayment d env w) = Some (JSON_stringify_state ?s5)
      \<and> toasts (handlePayment d env w) = toasts w
      \<and> (selectedFlight (state w) \<noteq> None \<and> has_bookingReference d \<longrightarrow>
           bookingReferenceText (handlePayment d env w) = bookingReference b)"
    if "setItem_accepts d (JSON_stringify_state ?s5)"
    using ref by (auto simp: handlePayment_accepted [OF assms that] updateConfirmation_def w1)
  have refused: "bookingStateItem (handlePayment d env w) = bookingStateItem w"
    if "\<not> setItem_accepts d (JSON_stringify_state ?s5)"
    by (simp add: handlePayment_refused [OF assms that] showError_def w1)
  show ?thesis
    using accepted refused ref by (simp add: handlePayment_pending st)
qed

text \<open>The payment of the sample session: the reference \<^verbatim>\<open>SKB-4FZYO8\<close> is shown.\<close>

theorem handlePayment_success_witness:
  "validatePaymentForm sample_env w_payment
     = (True, w_payment\<lparr>state := (state w_payment)\<lparr>paymentData := sample_payment\<rparr>\<rparr>)
   \<and> has_confirmBookingBtn full_dom
   \<and> createBooking sample_env = Inr sample_booking
   \<and> currentStep (state (handlePayment full_dom sample_env w_payment)) = 5
   \<and> bookingStateItem (handlePayment full_dom sample_env w_payment)
       = Some (JSON_stringify_state (state (handlePayment full_dom sample_env w_payment)))
   \<and> bookingReferenceText (handlePayment full_dom sample_env w_payment)
       = Some ''SKB-4FZYO8''"
proof -
  have btn: "has_confirmBookingBtn full_dom" "has_bookingReference full_dom"
    by (simp_all add: full_dom_def)
  have chosen: "selectedFlight (state w_payment) \<noteq> None"
    by (simp add: w_payment_state)
  from handlePayment_success [OF payment_accepted btn(1) createBooking_sample] chosen btn
  show ?thesis
    by (simp add: payment_accepted createBooking_sample sample_booking_def full_dom_accepts)
qed

text \<open>
  C3 as stated fails. After the booking of the sample session, made while a pending search
  written by the home page is in storage, the wizard is at step 5, the wizard-session slot
  holds the serialised session record, and the pending search is still there.
\<close>

theorem handlePayment_slots_counterexample:
  "validatePaymentForm sample_env w_pending
     = (True, w_pending\<lparr>state := (state w_pending)\<lparr>paymentData := sample_payment\<rparr>\<rparr>)
   \<and> createBooking sample_env = Inr sample_booking
   \<and> currentStep (state (handlePayment full_dom sample_env w_pending)) = 5
   \<and> bookingStateItem (handlePayment full_dom sample_env w_pending)
       = Some (JSON_stringify_state (state (handlePayment full_dom sample_env w_pending)))
   \<and> flightSearchItem (handlePayment full_dom sample_env w_pending)
       = Some (Json_object round_trip_search)"
proof -
  have btn: "has_confirmBookingBtn full_dom" by (simp add: full_dom_def)
  note run = handlePayment_accepted [OF pending_accepted btn createBooking_sample
      full_dom_accepts(1)]
  have step: "currentStep (state (handlePayment full_dom sample_env w_pending)) = 5"
    unfolding run by (simp add: updateConfirmation_def)
  have slot: "bookingStateItem (handlePayment full_dom sample_env w_pending)
       = Some (JSON_stringify_state (state (handlePayment full_dom sample_env w_pending)))"
    unfolding run by (simp add: updateConfirmation_def)
  have pending: "flightSearchItem (handlePayment full_dom sample_env w_pending)
       = Some (Json_object round_trip_search)"
    by (simp add: handlePayment_pending) (simp add: w_pending_def fire_def)
  from pending_accepted createBooking_sample step slot pending show ?thesis by simp
qed

subsection \<open>C4: infants and adults in the passenger selectors\<close>

text \<open>
  C4 fails on the code. From one adult, the clicks adults +, infants +, infants +,
  adults - on the home page's selector, and the same clicks on the booking page's
  selector, end with one adult and two infants; so do the picks adults 2, infants 2,
  adults 1 on the lists of the later home page. Decreasing the adults never lowers the
  infants. (The other operations keep the bound, and increasing the infants at the bound
  changes nothing: see the section on the selectors.)
\<close>

theorem decrease_adults_keeps_infants:
  "foldl (\<lambda>p (kind, act). home_click kind act p) default_passengers four_clicks
     = \<lparr>adults = 1, children = 0, infants = 2\<rparr>
   \<and> foldl (\<lambda>p (kind, act). book_click kind act p) default_passengers four_clicks
     = \<lparr>adults = 1, children = 0, infants = 2\<rparr>
   \<and> ls_passengers
        (foldl (\<lambda>st (kind, i). item_click kind i st) list_selector_init three_picks)
     = \<lparr>adults = 1, children = 0, infants = 2\<rparr>"
  by (simp add: four_clicks_def three_picks_def home_click_def book_click_def item_click_def
      default_passengers_def count_of_def set_count_def list_selector_init_def
      populateInfants_def items_of_def upto.simps)

subsection \<open>C5: the step and the data it needs\<close>

text \<open>
  C5, as the code has it. In every state the wizard reaches from a first load with an
  empty wizard-session slot, by its handlers fired in any order and at any step, and by
  loading the page again (which restores what the wizard itself saved), the step is one of
  1 to 5 and, at step 4, the passenger details are recorded. The forward control to step
  3 does nothing but show an error when no flight is selected. The back controls have no
  guard, so step 3 is reached without a selected flight by the back control of the payment
  step. What the slot holds is copied without a check.
\<close>

theorem reachable_step_valid:
  assumes "reachable d w"
  shows "currentStep (state w) \<in> {1, 2, 3, 4, 5}
     \<and> (currentStep (state w) = 4 \<longrightarrow> pd_name (passengerData (state w)) \<noteq> None
           \<and> pd_email (passengerData (state w)) \<noteq> None
           \<and> pd_phone (passengerData (state w)) \<noteq> None)
     \<and> (selectedFlight (state w) = None \<longrightarrow>
           state (world_of (continueToPassengers d w)) = state w
           \<and> toasts (world_of (continueToPassengers d w))
               = toasts w @ [''Please select a flight to continue''])"
proof -
  from reachable_inv [OF assms] have ok: "step_ok (state w)"
    by (simp add: wizard_inv_def)
  then have "1 \<le> currentStep (state w)" "currentStep (state w) \<le> 5"
    by (simp_all add: step_ok_def)
  then have "currentStep (state w) \<in> {1, 2, 3, 4, 5}" by auto
  with ok show ?thesis
    by (simp add: step_ok_def continueToPassengers_def validatePassengerStep_def showError_def)
qed

text \<open>The sample session reaches step 4 with the passenger details recorded.\<close>

theorem reachable_step_valid_witness:
  "reachable full_dom w_payment \<and> currentStep (state w_payment) = 4
   \<and> pd_name (passengerData (state w_payment)) \<noteq> None"
proof -
  have reach: "reachable full_dom w_payment"
    using sample_session_reachable by simp
  have four: "currentStep (state w_payment) = 4"
    by (simp add: w_payment_state)
  from reachable_step_valid [OF reach] four reach show ?thesis by simp
qed

text \<open>
  C5 as stated fails. From the flight results of the sample session, where no flight is
  selected yet, the back control of the payment step puts the wizard at step 3 with no
  flight selected. It fails for a restored state too: a slot that holds only the step 4
  is restored to step 4 with no passenger details, one that holds only the step 3 to step
  3 with no flight selected, and one that holds the step 9 to step 9.
\<close>

theorem step_without_data_counterexample:
  "reachable full_dom w_back_to_passenger
   \<and> currentStep (state w_results) = 2
   \<and> currentStep (state w_back_to_passenger) = 3
   \<and> selectedFlight (state w_back_to_passenger) = None
   \<and> currentStep (state (page_load full_dom sample_inputs (step_only_browser 4))) = 4
   \<and> passengerData (state (page_load full_dom sample_inputs (step_only_browser 4)))
       = empty_passenger_data
   \<and> pd_name empty_passenger_data = None
   \<and> currentStep (state (page_load full_dom sample_inputs (step_only_browser 3))) = 3
   \<and> selectedFlight (state (page_load full_dom sample_inputs (step_only_browser 3))) = None
   \<and> currentStep (state (page_load full_dom sample_inputs (step_only_browser 9))) = 9"
proof -
  have reach: "reachable full_dom w_back_to_passenger"
    unfolding w_back_to_passenger_def
    using sample_session_reachable by (simp add: reachable.after_event)
  have panel: "has_step full_dom 3" by (simp add: full_dom_def)
  have stepped: "currentStep (state w_back_to_passenger) = 3"
    "selectedFlight (state w_back_to_passenger) = None"
    using panel
    by (simp_all add: w_back_to_passenger_def fire_def state_navigateToStep w_results_state
        initial_state_def)
  have restored:
    "currentStep (state (page_load full_dom sample_inputs (step_only_browser 4))) = 4
     \<and> passengerData (state (page_load full_dom sample_inputs (step_only_browser 4)))
         = empty_passenger_data
     \<and> pd_name empty_passenger_data = None
     \<and> currentStep (state (page_load full_dom sample_inputs (step_only_browser 3))) = 3
     \<and> selectedFlight (state (page_load full_dom sample_inputs (step_only_browser 3)))
         = None
     \<and> currentStep (state (page_load full_dom sample_inputs (step_only_browser 9))) = 9"
    by (simp add: page_load_def initPassengerSelector_def loadSearchData_def
        initBookingFlow_def restore_try_def JSON_parse_def fresh_page_def
        step_only_browser_def only_step_def empty_browser_def copy_parsed_def num_or_def
        Let_def navigateToStep_def saveBookingState_def full_dom_def initial_state_def
        empty_passenger_data_def)
  from reach stepped restored show ?thesis by (simp add: w_results_state)
qed

subsection \<open>C6: saving and restoring the session\<close>

text \<open>
  C6. A session record whose step is not zero (the steps are 1 to 5), once saved, is
  restored on the next load of the page equal to the record that was saved; the save
  completes exactly when the storage accepts the text. When the payment form is accepted,
  the payment data in memory are the trimmed cardholder name, the last four characters of
  the card number (which has at least 13 digits) and the trimmed expiry date, whatever
  the CVV and the leading digits were; the saved text carries the payment data of the
  record and nothing else about the card.
\<close>

theorem persist_restore_roundtrip:
  "(saveBookingState d w = Done ws \<and> currentStep (state w) \<noteq> 0 \<longrightarrow>
      state (initBookingFlow d' (fresh_page i ws)) = state w)
   \<and> ((\<exists>w2. saveBookingState d w = Done w2)
        \<longleftrightarrow> setItem_accepts d (JSON_stringify_state (state w)))
   \<and> (validatePaymentForm env w = (True, w') \<longrightarrow>
      (\<exists>name number expiry.
         in_cardName (inputs w) = Some name \<and> in_cardNumber (inputs w) = Some number
         \<and> in_cardExpiry (inputs w) = Some expiry
         \<and> paymentData (state w') = \<lparr>cardName = Some (trim name),
              cardLastFour = Some (slice_last4 (strip_spaces (trim number))),
              expiryDate = Some (trim expiry)\<rparr>
         \<and> length (slice_last4 (strip_spaces (trim number))) = 4
         \<and> 13 \<le> length (strip_spaces (trim number))))
   \<and> (saveBookingState d w = Done ws
        \<and> bookingStateItem ws = Some (Json_object parsedState) \<longrightarrow>
      p_paymentData parsedState = Some (paymentData (state w)))"
proof -
  have restored: "state (world_of (restore_try d' (JSON_stringify_state (state w))
       (fresh_page i ws))) = state w"
    if "currentStep (state w) \<noteq> 0"
    using that
    by (simp add: fresh_page_def restore_try_def JSON_parse_def JSON_stringify_state_def
        copy_parsed_stringify state_navigateToStep Let_def)
  have roundtrip: "state (initBookingFlow d' (fresh_page i ws)) = state w"
    if "saveBookingState d w = Done ws" "currentStep (state w) \<noteq> 0"
  proof -
    from that(1) have slot: "bookingStateItem (fresh_page i ws)
        = Some (JSON_stringify_state (state w))"
      by (auto simp: saveBookingState_def fresh_page_def split: if_splits)
    from restored [OF that(2)] show ?thesis
      by (simp add: initBookingFlow_def slot world_of_def split: outcome.splits)
  qed
  have completes: "(\<exists>w2. saveBookingState d w = Done w2)
        \<longleftrightarrow> setItem_accepts d (JSON_stringify_state (state w))"
    by (simp add: saveBookingState_def)
  have saved: "p_paymentData parsedState = Some (paymentData (state w))"
    if "saveBookingState d w = Done ws" "bookingStateItem ws = Some (Json_object parsedState)"
    using that by (auto simp: saveBookingState_def JSON_stringify_state_def split: if_splits)
  from roundtrip completes saved validatePaymentForm_stored [of env w w'] show ?thesis
    by blast
qed

text \<open>The payment step of the sample session is restored as saved, and its payment form
  leaves the name, \<^verbatim>\<open>1111\<close> and the expiry date.\<close>

theorem persist_restore_roundtrip_witness:
  "currentStep (state w_payment) = 4
   \<and> saveBookingState full_dom w_payment
       = Done (w_payment\<lparr>bookingStateItem
            := Some (JSON_stringify_state (state w_payment))\<rparr>)
   \<and> state (initBookingFlow full_dom (fresh_page sample_inputs
         (w_payment\<lparr>bookingStateItem := Some (JSON_stringify_state (state w_payment))\<rparr>)))
       = state w_payment
   \<and> validatePaymentForm sample_env w_payment
       = (True, w_payment\<lparr>state := (state w_payment)\<lparr>paymentData := sample_payment\<rparr>\<rparr>)
   \<and> cardLastFour sample_payment = Some ''1111''
   \<and> length (slice_last4 (strip_spaces (trim ''4111 1111 1111 1111''))) = 4"
proof -
  have four: "currentStep (state w_payment) = 4"
    by (simp add: w_payment_state)
  have number: "in_cardNumber (inputs w_payment) = Some ''4111 1111 1111 1111''"
    by (simp add: w_payment_inputs filled_inputs_def sample_inputs_def)
  have saved: "saveBookingState full_dom w_payment
       = Done (w_payment\<lparr>bookingStateItem
            := Some (JSON_stringify_state (state w_payment))\<rparr>)"
    by (simp add: saveBookingState_accepted full_dom_accepts)
  from persist_restore_roundtrip [where w = w_payment and d = full_dom and d' = full_dom
      and i = sample_inputs and env = sample_env
      and ws = "w_payment\<lparr>bookingStateItem
            := Some (JSON_stringify_state (state w_payment))\<rparr>"
      and w' = "w_payment\<lparr>state := (state w_payment)\<lparr>paymentData := sample_payment\<rparr>\<rparr>"]
  show ?thesis
    using four number payment_accepted saved by (auto simp: sample_payment_def)
qed

subsection \<open>C7: a corrupt wizard-session slot\<close>

text \<open>
  C7. When the wizard-session slot holds a text that is not JSON, or the text \<^verbatim>\<open>null\<close>, the
  \<^verbatim>\<open>try\<close> block of \<^verbatim>\<open>initBookingFlow\<close> throws before it has written anything, the
  \<^verbatim>\<open>catch\<close> block takes the exception, and the function returns with the page as it was
  loaded: the initial session record, at step 1. The whole load of the page ends at
  step 1.
\<close>

theorem restore_corrupt_is_fresh:
  assumes "bookingStateItem w = Some t" and "\<forall>parsedState. t \<noteq> Json_object parsedState"
  shows "(\<exists>e. restore_try d t (fresh_page i w) = Threw e (fresh_page i w))
     \<and> initBookingFlow d (fresh_page i w) = fresh_page i w
     \<and> state (initBookingFlow d (fresh_page i w)) = initial_state
     \<and> currentStep (state (initBookingFlow d (fresh_page i w))) = 1
     \<and> toasts (initBookingFlow d (fresh_page i w)) = []
     \<and> currentStep (state (page_load d i w)) = 1"
proof -
  from assms(2) have t: "t = Malformed \<or> t = Json_null" by (cases t) auto
  then have thrown: "\<exists>e. restore_try d t (fresh_page i w) = Threw e (fresh_page i w)"
    by (auto simp: restore_try_def JSON_parse_def)
  with assms(1) have same: "initBookingFlow d (fresh_page i w) = fresh_page i w"
    by (auto simp: initBookingFlow_def fresh_page_def)
  have fresh: "state (fresh_page i w) = initial_state" "toasts (fresh_page i w) = []"
    "currentStep initial_state = 1"
    by (simp_all add: fresh_page_def initial_state_def)
  have step: "currentStep (state (page_load d i w)) = 1"
    unfolding page_load_def same
    by (simp add: initPassengerSelector_def loadSearchData_def fresh_page_def initial_state_def
        split: option.splits sum.splits)
  from thrown same fresh step show ?thesis by simp
qed

text \<open>A browser whose slot holds a malformed text.\<close>

theorem restore_corrupt_is_fresh_witness:
  "bookingStateItem corrupt_browser = Some Malformed
   \<and> restore_try full_dom Malformed (fresh_page sample_inputs corrupt_browser)
       = Threw SyntaxError (fresh_page sample_inputs corrupt_browser)
   \<and> state (initBookingFlow full_dom (fresh_page sample_inputs corrupt_browser))
       = initial_state
   \<and> currentStep (state (page_load full_dom sample_inputs corrupt_browser)) = 1"
proof -
  have slot: "bookingStateItem corrupt_browser = Some Malformed"
    by (simp add: corrupt_browser_def)
  have thrown: "restore_try full_dom Malformed (fresh_page sample_inputs corrupt_browser)
       = Threw SyntaxError (fresh_page sample_inputs corrupt_browser)"
    by (simp add: restore_try_def JSON_parse_def)
  from restore_corrupt_is_fresh [OF slot, of full_dom sample_inputs] slot thrown
  show ?thesis by (simp add: fresh_page_def)
qed

subsection \<open>C8: the card-number check\<close>




subsection \<open>C9: the simulated payment and booking\<close>

text \<open>
  C9, as the code has it. Whatever the clock and the random generator give,
  \<^verbatim>\<open>processPayment\<close> resolves to a record with \<^verbatim>\<open>success\<close> true, and \<^verbatim>\<open>createBooking\<close>
  resolves to a record with the status \<^verbatim>\<open>confirmed\<close> and a reference that starts with
  \<^verbatim>\<open>SKB-\<close>. The \<^verbatim>\<open>try\<close> block of \<^verbatim>\<open>handlePayment\<close> also saves the session, and the only
  exception it can throw is that of the storage refusing the write. So the handler shows
  the message that the payment failed exactly when the payment form is accepted, the page
  has the confirm button and the storage refuses the session record of the confirmed
  booking; when the storage accepts it, the message is never shown.
\<close>

theorem payment_fails_only_when_storage_refuses:
  "(\<exists>r. processPayment env = Inr r \<and> success r)
   \<and> (\<exists>b r. createBooking env = Inr b \<and> status b = Some ''confirmed''
         \<and> bookingReference b = Some r \<and> take 4 r = ''SKB-'')
   \<and> (handlePayment_try d env w = Threw e w' \<longrightarrow> e = QuotaExceededError)
   \<and> ((\<forall>t. setItem_accepts d t) \<longrightarrow> (\<exists>w2. handlePayment_try d env w = Done w2))
   \<and> (''Payment failed. Please try again.'' \<notin> set (toasts w) \<longrightarrow>
        (''Payment failed. Please try again.'' \<in> set (toasts (handlePayment d env w))
         \<longleftrightarrow> (\<exists>w1 b. validatePaymentForm env w = (True, w1) \<and> has_confirmBookingBtn d
                \<and> createBooking env = Inr b
                \<and> \<not> setItem_accepts d (JSON_stringify_state
                       ((state w1)\<lparr>bookingDetails := b, currentStep := 5\<rparr>)))))"
proof -
  let ?m = "''Payment failed. Please try again.''"
  have paid: "\<exists>r. processPayment env = Inr r \<and> success r"
    by (simp add: processPayment_def)
  have booked: "\<exists>b r. createBooking env = Inr b \<and> status b = Some ''confirmed''
         \<and> bookingReference b = Some r \<and> take 4 r = ''SKB-''"
    by (simp add: createBooking_def)
  have only_storage: "e = QuotaExceededError" if "handlePayment_try d env w = Threw e w'"
    using that
    by (auto simp: handlePayment_try_def processPayment_def createBooking_def Let_def
        saveBookingState_def navigateToStep_def and_then_def split: if_splits)
  have completes: "\<exists>w2. handlePayment_try d env w = Done w2" if "\<forall>t. setItem_accepts d t"
    using that
    by (simp add: handlePayment_try_def processPayment_def createBooking_def Let_def
        saveBookingState_def navigateToStep_def)
  have shown: "?m \<in> set (toasts (handlePayment d env w))
         \<longleftrightarrow> (\<exists>w1 b. validatePaymentForm env w = (True, w1) \<and> has_confirmBookingBtn d
                \<and> createBooking env = Inr b
                \<and> \<not> setItem_accepts d (JSON_stringify_state
                       ((state w1)\<lparr>bookingDetails := b, currentStep := 5\<rparr>)))"
    if clean: "?m \<notin> set (toasts w)"
  proof -
    obtain ok w1 where v: "validatePaymentForm env w = (ok, w1)"
      by (cases "validatePaymentForm env w")
    obtain b where b: "createBooking env = Inr b"
      using booked by blast
    have t1: "?m \<notin> set (toasts w1)"
      using validatePaymentForm_toasts [OF v, of ?m] clean by auto
    show ?thesis
    proof (cases "ok \<and> has_confirmBookingBtn d")
      case False
      with v t1 show ?thesis by (cases ok) (auto simp: handlePayment_def)
    next
      case True
      with v have v': "validatePaymentForm env w = (True, w1)" and btn: "has_confirmBookingBtn d"
        by simp_all
      show ?thesis
      proof (cases "setItem_accepts d (JSON_stringify_state
                       ((state w1)\<lparr>bookingDetails := b, currentStep := 5\<rparr>))")
        case True
        with t1 v' b btn show ?thesis
          by (simp add: handlePayment_accepted [OF v' btn b True] toasts_updateConfirmation)
      next
        case False
        with v' b btn show ?thesis
          by (simp add: handlePayment_refused [OF v' btn b False] showError_def)
      qed
    qed
  qed
  from paid booked only_storage completes shown show ?thesis by blast
qed

text \<open>The payment of the sample session, in a browser whose storage accepts every write,
  shows no message.\<close>

theorem payment_fails_only_when_storage_refuses_witness:
  "toasts w_payment = []
   \<and> (\<forall>t. setItem_accepts full_dom t)
   \<and> ''Payment failed. Please try again.''
        \<notin> set (toasts (handlePayment full_dom sample_env w_payment))
   \<and> createBooking sample_env = Inr sample_booking
   \<and> status sample_booking = Some ''confirmed''"
proof -
  have none: "toasts w_payment = []"
    by (rule sample_session_quiet)
  from payment_fails_only_when_storage_refuses [of sample_env full_dom w_payment] none
  show ?thesis
    by (simp add: createBooking_sample sample_booking_def full_dom_accepts)
qed

text \<open>
  C9 as stated fails. The payment of the sample session, in a browser whose storage is
  full: the form is accepted, the simulated calls succeed, the save inside the \<^verbatim>\<open>try\<close>
  block throws, and the handler shows the message that the payment failed.
\<close>

theorem payment_failed_counterexample:
  "validatePaymentForm sample_env w_payment
     = (True, w_payment\<lparr>state := (state w_payment)\<lparr>paymentData := sample_payment\<rparr>\<rparr>)
   \<and> has_confirmBookingBtn full_storage_dom
   \<and> createBooking sample_env = Inr sample_booking
   \<and> toasts w_payment = []
   \<and> handlePayment_try full_storage_dom sample_env
        (w_payment\<lparr>state := (state w_payment)\<lparr>paymentData := sample_payment\<rparr>\<rparr>)
       = Threw QuotaExceededError
           (w_payment\<lparr>state := (state w_payment)\<lparr>paymentData := sample_payment,
               bookingDetails := sample_booking, currentStep := 5\<rparr>\<rparr>)
   \<and> toasts (handlePayment full_storage_dom sample_env w_payment)
       = [''Payment failed. Please try again.'']"
proof -
  have btn: "has_confirmBookingBtn full_storage_dom"
    by (simp add: full_storage_dom_def full_dom_def)
  have full: "\<not> setItem_accepts full_storage_dom t" for t
    by (simp add: full_storage_dom_def)
  have thrown: "handlePayment_try full_storage_dom sample_env
        (w_payment\<lparr>state := (state w_payment)\<lparr>paymentData := sample_payment\<rparr>\<rparr>)
       = Threw QuotaExceededError
           (w_payment\<lparr>state := (state w_payment)\<lparr>paymentData := sample_payment,
               bookingDetails := sample_booking, currentStep := 5\<rparr>\<rparr>)"
    by (simp add: handlePayment_try_def processPayment_def createBooking_sample
        saveBookingState_def full)
  have shown: "toasts (handlePayment full_storage_dom sample_env w_payment)
       = [''Payment failed. Please try again.'']"
    by (simp add: handlePayment_refused [OF payment_accepted btn createBooking_sample full]
        showError_def sample_session_quiet)
  from payment_accepted btn createBooking_sample sample_session_quiet thrown shown
  show ?thesis by simp
qed

subsection \<open>C10: the mocked search\<close>

text \<open>
  C10. For every search, \<^verbatim>\<open>searchFlightsAPI\<close> returns three offers whose departure and
  arrival cities are the searched ones, or \<^verbatim>\<open>Abuja\<close> and \<^verbatim>\<open>Lagos\<close> where the search gives
  none. Shown by \<^verbatim>\<open>displayFlights\<close>, they make three cards and hide the no-flights notice;
  a search never turns the notice on, however it ends.
\<close>

theorem search_returns_three_offers:
  "length (searchFlightsAPI sd) = 3
   \<and> list_all (\<lambda>f. departureCity f = str_or (sd_from sd) ''Abuja''
                  \<and> arrivalCity f = str_or (sd_to sd) ''Lagos'') (searchFlightsAPI sd)
   \<and> searchFlightsAPI sd \<noteq> []
   \<and> (has_flightsResults d \<longrightarrow>
        length (flightCards (displayFlights d (searchFlightsAPI sd) w)) = 3)
   \<and> noFlightsDisplay (displayFlights d (searchFlightsAPI sd) w)
        = (if has_flightsResults d \<and> has_noFlights d then Some ''none'' else noFlightsDisplay w)
   \<and> (noFlightsDisplay (world_of (handleSearch d w)) = Some ''block''
        \<longrightarrow> noFlightsDisplay w = Some ''block'')"
proof -
  have three: "length (searchFlightsAPI sd) = 3" for sd
    by (simp add: searchFlightsAPI_def)
  have ne: "searchFlightsAPI sd \<noteq> []" for sd
    by (simp add: searchFlightsAPI_def)
  have cities: "list_all (\<lambda>f. departureCity f = str_or (sd_from sd) ''Abuja''
                  \<and> arrivalCity f = str_or (sd_to sd) ''Lagos'') (searchFlightsAPI sd)"
    by (simp add: searchFlightsAPI_def mock_flight_def)
  have notice: "noFlightsDisplay (displayFlights d (searchFlightsAPI sd) w)
        = (if has_flightsResults d \<and> has_noFlights d then Some ''none'' else noFlightsDisplay w)"
    for sd w
    by (simp add: displayFlights_def Let_def ne)
  have cards: "has_flightsResults d \<longrightarrow>
        length (flightCards (displayFlights d (searchFlightsAPI sd) w)) = 3"
    by (simp add: displayFlights_def Let_def ne three)
  have moved: "noFlightsDisplay (world_of (case navigateToStep d k v of
        Done w2 \<Rightarrow> Done w2 | Threw e w2 \<Rightarrow> Done (showError m w2))) = noFlightsDisplay v"
    for k v m
    using noFlights_navigateToStep [of d k v]
    by (cases "navigateToStep d k v") (simp_all add: showError_def)
  have search: "noFlightsDisplay w = Some ''block''"
    if "noFlightsDisplay (world_of (handleSearch d w)) = Some ''block''"
    using that
    by (auto simp: handleSearch_def Let_def showError_def moved notice
        split: option.splits if_splits)
  from three cities ne notice cards search show ?thesis by blast
qed

text \<open>The search of the sample session: three cards, the notice hidden, cities as
  searched; and the cities of a search that gives none.\<close>

theorem search_returns_three_offers_witness:
  "has_flightsResults full_dom
   \<and> length (flightCards (displayFlights full_dom (searchFlightsAPI one_way_search) w_loaded)) = 3
   \<and> noFlightsDisplay (displayFlights full_dom (searchFlightsAPI one_way_search) w_loaded)
       = Some ''none''
   \<and> map departureCity (searchFlightsAPI one_way_search) = [''Abuja'', ''Abuja'', ''Abuja'']
   \<and> map arrivalCity (searchFlightsAPI empty_search_data) = [''Lagos'', ''Lagos'', ''Lagos'']"
proof -
  have page: "has_flightsResults full_dom" "has_noFlights full_dom"
    by (simp_all add: full_dom_def)
  have cities: "map departureCity (searchFlightsAPI one_way_search)
      = [''Abuja'', ''Abuja'', ''Abuja'']"
    "map arrivalCity (searchFlightsAPI empty_search_data) = [''Lagos'', ''Lagos'', ''Lagos'']"
    by (simp_all add: searchFlightsAPI_def mock_flight_def one_way_search_def
        round_trip_search_def empty_search_data_def str_or_def)
  from search_returns_three_offers [of one_way_search full_dom w_loaded] page cities
  show ?thesis by simp
qed

end
